theory Spec2Isabelle
  imports Main
begin

section \<open>UniStacker: the scrape-and-normalise pipeline of \<open>backend/dulms_public.py\<close>\<close>

text \<open>
  A shallow embedding of the Python module. Python \<open>str\<close> values are \<open>string\<close>s with one
  \<open>char\<close> per code point (code points below 256); Python's unbounded \<open>int\<close> is \<open>int\<close>.
  A naive \<open>datetime\<close> is the number of microseconds since 0001-01-01 00:00:00, a
  \<open>timedelta\<close> a number of microseconds. Every exception of the source is a value of type
  \<open>error\<close>, and a function that may raise returns \<open>error + 'a\<close>. The browser, the clock
  and the network are outside the module: what they answer is an argument of the model.
\<close>

subsection \<open>Exceptions\<close>

datatype error =
    ValueError
  | IndexError
  | OverflowError
  | TimeoutException
  | NoSuchElementException
  | StaleElementReferenceException
  | RequestException
  | Exception string

subsection \<open>Printing integers: \<open>str(n)\<close> and the f-string \<open>{n}\<close>\<close>

definition digit_char :: "nat \<Rightarrow> char" where
  "digit_char d = ''0123456789'' ! d"

function dec :: "nat \<Rightarrow> string" where
  "dec n = (if n < 10 then [digit_char n] else dec (n div 10) @ [digit_char (n mod 10)])"
  by pat_completeness auto
termination
  by (relation "measure id") auto

declare dec.simps [simp del]

definition str_int :: "int \<Rightarrow> string" where
  "str_int i = (if i < 0 then CHR ''-'' # dec (nat (- i)) else dec (nat i))"

subsection \<open>Characters and the string methods the module uses\<close>

definition code :: "char \<Rightarrow> nat" where
  "code c = of_char c"

text \<open>\<open>str.isspace\<close>, which is also the class \<open>\s\<close> of \<open>re\<close>, on code points below 256.\<close>

definition is_space :: "char \<Rightarrow> bool" where
  "is_space c \<longleftrightarrow> (let n = code c in
     (9 \<le> n \<and> n \<le> 13) \<or> (28 \<le> n \<and> n \<le> 32) \<or> n = 133 \<or> n = 160)"

text \<open>The class \<open>\d\<close>: below 256 the decimal digits are \<open>0\<close> to \<open>9\<close>.\<close>

definition is_digit :: "char \<Rightarrow> bool" where
  "is_digit c \<longleftrightarrow> (let n = code c in 48 \<le> n \<and> n \<le> 57)"

text \<open>The class \<open>\w\<close> on code points below 256: alphanumeric, or the underscore.\<close>

definition is_word :: "char \<Rightarrow> bool" where
  "is_word c \<longleftrightarrow> (let n = code c in
     (48 \<le> n \<and> n \<le> 57) \<or> (65 \<le> n \<and> n \<le> 90) \<or> n = 95 \<or> (97 \<le> n \<and> n \<le> 122)
     \<or> n = 170 \<or> n = 178 \<or> n = 179 \<or> n = 181 \<or> n = 185 \<or> n = 186
     \<or> (188 \<le> n \<and> n \<le> 190) \<or> (192 \<le> n \<and> n \<le> 214) \<or> (216 \<le> n \<and> n \<le> 246)
     \<or> 248 \<le> n)"

text \<open>
  Lower case of the letters \<open>A\<close> to \<open>Z\<close>. The patterns of the module hold ASCII letters only,
  and below 256 no other character folds to one of them.
\<close>

definition upper_chars :: string where
  "upper_chars = ''ABCDEFGHIJKLMNOPQRSTUVWXYZ''"

definition lower_chars :: string where
  "lower_chars = ''abcdefghijklmnopqrstuvwxyz''"

definition lower_char :: "char \<Rightarrow> char" where
  "lower_char c = (case map_of (zip upper_chars lower_chars) c of Some l \<Rightarrow> l | None \<Rightarrow> c)"

definition lower :: "string \<Rightarrow> string" where
  "lower s = map lower_char s"

text \<open>\<open>s.strip()\<close>\<close>

definition strip :: "string \<Rightarrow> string" where
  "strip s = rev (dropWhile is_space (rev (dropWhile is_space s)))"

text \<open>\<open>s.replace('\n', ' ')\<close>\<close>

definition replace_newlines :: "string \<Rightarrow> string" where
  "replace_newlines s = map (\<lambda>c. if c = CHR 0x0A then CHR '' '' else c) s"

text \<open>\<open>sub in s\<close>, the substring test.\<close>

fun is_prefix :: "string \<Rightarrow> string \<Rightarrow> bool" where
  "is_prefix [] s = True"
| "is_prefix (p # ps) [] = False"
| "is_prefix (p # ps) (c # cs) = (p = c \<and> is_prefix ps cs)"

fun contains :: "string \<Rightarrow> string \<Rightarrow> bool" where
  "contains sub [] = (sub = [])"
| "contains sub (c # cs) = (is_prefix sub (c # cs) \<or> contains sub cs)"

text \<open>
  The text before and after the first occurrence of a (non-empty) separator, and
  \<open>s.split(sep)[1]\<close>, which raises \<open>IndexError\<close> when the separator does not occur.
\<close>

fun partition_at :: "string \<Rightarrow> string \<Rightarrow> (string \<times> string) option" where
  "partition_at sep [] = None"
| "partition_at sep (c # cs) =
     (if is_prefix sep (c # cs) then Some ([], drop (length sep) (c # cs))
      else (case partition_at sep cs of
              None \<Rightarrow> None
            | Some (before, after) \<Rightarrow> Some (c # before, after)))"

definition split_second :: "string \<Rightarrow> string \<Rightarrow> error + string" where
  "split_second sep s =
     (case partition_at sep s of
        None \<Rightarrow> Inl IndexError
      | Some (before, after) \<Rightarrow>
          (case partition_at sep after of
             None \<Rightarrow> Inr after
           | Some (middle, rest) \<Rightarrow> Inr middle))"

text \<open>
  \<open>int(s)\<close> on a string of decimal digits, possibly surrounded by white space (the only
  strings the module converts). \<open>max_str_digits\<close> is the interpreter's limit on the number of
  digits (\<open>sys.get_int_max_str_digits()\<close>, 4300 by default, 0 for no limit); the interpreter
  applies it to texts of more than 640 digits only.
\<close>

definition digit_val :: "char \<Rightarrow> nat" where
  "digit_val c = code c - 48"

definition digits_val :: "string \<Rightarrow> nat" where
  "digits_val s = foldl (\<lambda>n c. 10 * n + digit_val c) 0 s"

definition py_int :: "nat \<Rightarrow> string \<Rightarrow> error + int" where
  "py_int max_str_digits s =
     (let t = strip s in
      if t = [] \<or> \<not> list_all is_digit t then Inl ValueError
      else if 640 < length t \<and> 0 < max_str_digits \<and> max_str_digits < length t
      then Inl ValueError
      else Inr (int (digits_val t)))"

subsection \<open>Regular expressions: the backtracking matcher of \<open>re\<close>\<close>

text \<open>
  The constructs that the patterns of the module (and of \<open>strptime\<close>) use. A class is a
  predicate on characters; \<open>Star\<close> is the greedy \<open>c*\<close> and \<open>LazyStar\<close> the lazy \<open>c*?\<close> of a
  class, \<open>Alt\<close> the ordered \<open>|\<close>, \<open>Grp n\<close> the capturing group \<open>n\<close>, \<open>Bnd\<close> is \<open>\b\<close> and \<open>Bol\<close>
  is \<open>^\<close>.
\<close>

datatype regex =
    Eps
  | Cls "char \<Rightarrow> bool"
  | Seq regex regex
  | Alt regex regex
  | Star "char \<Rightarrow> bool"
  | LazyStar "char \<Rightarrow> bool"
  | Grp nat regex
  | Bnd
  | Bol

text \<open>
  The state of a match: the character before the position (none at the start of the
  string), the text still to read, and the groups captured so far.
\<close>

type_synonym captures = "nat \<rightharpoonup> string"
type_synonym mstate = "char option \<times> string \<times> captures"

text \<open>
  The matcher tries the alternatives in \<open>re\<close>'s order and gives each to the continuation
  \<open>k\<close>, the rest of the pattern; the first one that the continuation accepts wins.
\<close>

fun star_greedy ::
  "(char \<Rightarrow> bool) \<Rightarrow> (mstate \<Rightarrow> 'r option) \<Rightarrow> char option \<Rightarrow> captures \<Rightarrow> string \<Rightarrow> 'r option" where
  "star_greedy p k prev caps [] = k (prev, [], caps)"
| "star_greedy p k prev caps (c # cs) =
     (if p c then (case star_greedy p k (Some c) caps cs of
                     Some r \<Rightarrow> Some r
                   | None \<Rightarrow> k (prev, c # cs, caps))
      else k (prev, c # cs, caps))"

fun star_lazy ::
  "(char \<Rightarrow> bool) \<Rightarrow> (mstate \<Rightarrow> 'r option) \<Rightarrow> char option \<Rightarrow> captures \<Rightarrow> string \<Rightarrow> 'r option" where
  "star_lazy p k prev caps [] = k (prev, [], caps)"
| "star_lazy p k prev caps (c # cs) =
     (case k (prev, c # cs, caps) of
        Some r \<Rightarrow> Some r
      | None \<Rightarrow> if p c then star_lazy p k (Some c) caps cs else None)"

definition word_opt :: "char option \<Rightarrow> bool" where
  "word_opt x = (case x of None \<Rightarrow> False | Some c \<Rightarrow> is_word c)"

fun next_char :: "string \<Rightarrow> char option" where
  "next_char [] = None"
| "next_char (c # cs) = Some c"

fun rmatch :: "regex \<Rightarrow> (mstate \<Rightarrow> 'r option) \<Rightarrow> mstate \<Rightarrow> 'r option" where
  "rmatch Eps k st = k st"
| "rmatch (Cls p) k (prev, s, caps) =
     (case s of [] \<Rightarrow> None | c # cs \<Rightarrow> if p c then k (Some c, cs, caps) else None)"
| "rmatch (Seq a b) k st = rmatch a (rmatch b k) st"
| "rmatch (Alt a b) k st = (case rmatch a k st of Some r \<Rightarrow> Some r | None \<Rightarrow> rmatch b k st)"
| "rmatch (Star p) k (prev, s, caps) = star_greedy p k prev caps s"
| "rmatch (LazyStar p) k (prev, s, caps) = star_lazy p k prev caps s"
| "rmatch (Grp n r) k (prev, s, caps) =
     rmatch r (\<lambda>(prev', s', caps'). k (prev', s', caps'(n \<mapsto> take (length s - length s') s)))
       (prev, s, caps)"
| "rmatch Bnd k (prev, s, caps) =
     (if word_opt prev \<noteq> word_opt (next_char s) then k (prev, s, caps) else None)"
| "rmatch Bol k (prev, s, caps) = (if prev = None then k (prev, s, caps) else None)"

text \<open>The end of a pattern accepts wherever it is reached.\<close>

definition accept :: "mstate \<Rightarrow> mstate option" where
  "accept st = Some st"

text \<open>\<open>pattern.match(s)\<close>: a match at the start of the string.\<close>

definition re_match :: "regex \<Rightarrow> string \<Rightarrow> mstate option" where
  "re_match r s = rmatch r accept (None, s, Map.empty)"

text \<open>\<open>re.search(pattern, s)\<close>: the match at the leftmost position that has one.\<close>

fun search_from :: "regex \<Rightarrow> char option \<Rightarrow> string \<Rightarrow> mstate option" where
  "search_from r prev [] = rmatch r accept (prev, [], Map.empty)"
| "search_from r prev (c # cs) =
     (case rmatch r accept (prev, c # cs, Map.empty) of
        Some m \<Rightarrow> Some m
      | None \<Rightarrow> search_from r (Some c) cs)"

definition re_search :: "regex \<Rightarrow> string \<Rightarrow> captures option" where
  "re_search r s = map_option (\<lambda>m. snd (snd m)) (search_from r None s)"

text \<open>
  \<open>re.sub(pattern, repl, s)\<close>: the non-overlapping matches from left to right, each replaced
  by \<open>repl\<close> of its groups; an empty match is replaced and the next character copied.
\<close>

function re_sub :: "regex \<Rightarrow> (captures \<Rightarrow> string) \<Rightarrow> char option \<Rightarrow> string \<Rightarrow> string" where
  "re_sub r repl prev s =
     (case rmatch r accept (prev, s, Map.empty) of
        Some (prev', rest, caps) \<Rightarrow>
          if length rest < length s then repl caps @ re_sub r repl prev' rest
          else (case s of [] \<Rightarrow> repl caps | c # cs \<Rightarrow> repl caps @ c # re_sub r repl (Some c) cs)
      | None \<Rightarrow> (case s of [] \<Rightarrow> [] | c # cs \<Rightarrow> c # re_sub r repl (Some c) cs))"
  by pat_completeness auto
termination
  by (relation "measure (\<lambda>(r, repl, prev, s). length s)") auto

declare re_sub.simps [simp del]

text \<open>A group in a replacement template: the empty string when the group did not take part.\<close>

definition group :: "captures \<Rightarrow> nat \<Rightarrow> string" where
  "group caps n = (case caps n of Some g \<Rightarrow> g | None \<Rightarrow> [])"

text \<open>Pattern text: a literal under \<open>re.IGNORECASE\<close>, \<open>c+\<close>, \<open>r?\<close>, a character range, \<open>.\<close>.\<close>

definition ci_eq :: "char \<Rightarrow> char \<Rightarrow> bool" where
  "ci_eq l c \<longleftrightarrow> lower_char l = lower_char c"

definition lit :: "string \<Rightarrow> regex" where
  "lit w = foldr (\<lambda>c r. Seq (Cls (ci_eq c)) r) w Eps"

definition Plus :: "(char \<Rightarrow> bool) \<Rightarrow> regex" where
  "Plus p = Seq (Cls p) (Star p)"

definition Opt :: "regex \<Rightarrow> regex" where
  "Opt r = Alt r Eps"

definition char_range :: "char \<Rightarrow> char \<Rightarrow> char \<Rightarrow> bool" where
  "char_range a b c \<longleftrightarrow> code a \<le> code c \<and> code c \<le> code b"

definition any_char :: "char \<Rightarrow> bool" where
  "any_char c \<longleftrightarrow> c \<noteq> CHR 0x0A"

text \<open>An alternation \<open>a|b|c\<close> of literals, in this order.\<close>

fun alts :: "string list \<Rightarrow> regex" where
  "alts [] = Cls (\<lambda>c. False)"
| "alts [w] = lit w"
| "alts (w # ws) = Alt (lit w) (alts ws)"

subsection \<open>Dates and durations: \<open>datetime\<close> and \<open>timedelta\<close>\<close>

text \<open>
  A naive \<open>datetime\<close> is modelled by the number of microseconds since 0001-01-01 00:00:00,
  a \<open>timedelta\<close> by a number of microseconds. The library keeps a \<open>datetime\<close> within the
  years 1 to 9999 and the days of a \<open>timedelta\<close> within 999999999 in magnitude; the
  operations that would leave these ranges raise.
\<close>

type_synonym datetime = int
type_synonym timedelta = int

definition SECOND :: int where "SECOND = 1000000"
definition MINUTE :: int where "MINUTE = 60 * 1000000"
definition HOUR :: int where "HOUR = 3600 * 1000000"
definition DAY :: int where "DAY = 86400 * 1000000"

text \<open>The proleptic Gregorian calendar: the ordinal of 0001-01-01 is 1.\<close>

definition is_leap :: "int \<Rightarrow> bool" where
  "is_leap y \<longleftrightarrow> y mod 4 = 0 \<and> (y mod 100 \<noteq> 0 \<or> y mod 400 = 0)"

definition days_in_month :: "int \<Rightarrow> int \<Rightarrow> int" where
  "days_in_month y m =
     (if m = 2 then (if is_leap y then 29 else 28)
      else if m = 4 \<or> m = 6 \<or> m = 9 \<or> m = 11 then 30 else 31)"

definition days_before_year :: "int \<Rightarrow> int" where
  "days_before_year y = (y - 1) * 365 + (y - 1) div 4 - (y - 1) div 100 + (y - 1) div 400"

definition days_before_month :: "int \<Rightarrow> int \<Rightarrow> int" where
  "days_before_month y m = sum_list (map (days_in_month y) [1 .. m - 1])"

definition ymd2ord :: "int \<Rightarrow> int \<Rightarrow> int \<Rightarrow> int" where
  "ymd2ord y m d = days_before_year y + days_before_month y m + d"

definition MAX_ORDINAL :: int where
  "MAX_ORDINAL = 3652059"

definition valid_datetime :: "datetime \<Rightarrow> bool" where
  "valid_datetime t \<longleftrightarrow> 0 \<le> t \<and> t < MAX_ORDINAL * DAY"

text \<open>The constructor \<open>datetime(year, month, day, hour, minute, second)\<close>.\<close>

definition datetime_new :: "int \<Rightarrow> int \<Rightarrow> int \<Rightarrow> int \<Rightarrow> int \<Rightarrow> int \<Rightarrow> error + datetime" where
  "datetime_new y m d hh mm ss =
     (if 1 \<le> y \<and> y \<le> 9999 \<and> 1 \<le> m \<and> m \<le> 12 \<and> 1 \<le> d \<and> d \<le> days_in_month y m
         \<and> 0 \<le> hh \<and> hh \<le> 23 \<and> 0 \<le> mm \<and> mm \<le> 59 \<and> 0 \<le> ss \<and> ss \<le> 59
      then Inr ((ymd2ord y m d - 1) * DAY + hh * HOUR + mm * MINUTE + ss * SECOND)
      else Inl ValueError)"

text \<open>\<open>timedelta(days=days, hours=hours)\<close>\<close>

definition timedelta_new :: "int \<Rightarrow> int \<Rightarrow> error + timedelta" where
  "timedelta_new days hours =
     (let us = days * DAY + hours * HOUR in
      if - 999999999 * DAY \<le> us \<and> us < 1000000000 * DAY then Inr us else Inl OverflowError)"

text \<open>\<open>dt + delta\<close>, \<open>a - b\<close> on two dates, and the attribute \<open>delta.days\<close>.\<close>

definition datetime_add :: "datetime \<Rightarrow> timedelta \<Rightarrow> error + datetime" where
  "datetime_add t delta =
     (if valid_datetime (t + delta) then Inr (t + delta) else Inl OverflowError)"

definition datetime_sub :: "datetime \<Rightarrow> datetime \<Rightarrow> timedelta" where
  "datetime_sub a b = a - b"

definition days :: "timedelta \<Rightarrow> int" where
  "days delta = delta div DAY"

subsection \<open>\<open>datetime.strptime\<close>\<close>

text \<open>
  The library turns a format into a pattern: a directive becomes a named group, a run of
  white space becomes \<open>\s+\<close>, any other character stands for itself; the pattern is matched
  at the start of the text, ignoring case, and must use up the text. The names are those of
  the C locale. A group is named by the code of its directive letter.
\<close>

definition month_abbrs :: "string list" where
  "month_abbrs = [''jan'', ''feb'', ''mar'', ''apr'', ''may'', ''jun'',
                  ''jul'', ''aug'', ''sep'', ''oct'', ''nov'', ''dec'']"

definition month_names :: "string list" where
  "month_names = [''january'', ''february'', ''march'', ''april'', ''may'', ''june'', ''july'',
                  ''august'', ''september'', ''october'', ''november'', ''december'']"

definition weekday_abbrs :: "string list" where
  "weekday_abbrs = [''mon'', ''tue'', ''wed'', ''thu'', ''fri'', ''sat'', ''sun'']"

definition ch :: "char \<Rightarrow> regex" where
  "ch c = Cls (\<lambda>x. x = c)"

definition directive :: "char \<Rightarrow> regex option" where
  "directive d =
     (if d = CHR ''d'' then
        Some (Grp (code d)
          (Alt (Seq (ch CHR ''3'') (Cls (char_range CHR ''0'' CHR ''1'')))
          (Alt (Seq (Cls (char_range CHR ''1'' CHR ''2'')) (Cls is_digit))
          (Alt (Seq (ch CHR ''0'') (Cls (char_range CHR ''1'' CHR ''9'')))
          (Alt (Cls (char_range CHR ''1'' CHR ''9''))
               (Seq (ch CHR '' '') (Cls (char_range CHR ''1'' CHR ''9''))))))))
      else if d = CHR ''H'' then
        Some (Grp (code d)
          (Alt (Seq (ch CHR ''2'') (Cls (char_range CHR ''0'' CHR ''3'')))
          (Alt (Seq (Cls (char_range CHR ''0'' CHR ''1'')) (Cls is_digit))
               (Cls is_digit))))
      else if d = CHR ''I'' \<or> d = CHR ''m'' then
        Some (Grp (code d)
          (Alt (Seq (ch CHR ''1'') (Cls (char_range CHR ''0'' CHR ''2'')))
          (Alt (Seq (ch CHR ''0'') (Cls (char_range CHR ''1'' CHR ''9'')))
               (Cls (char_range CHR ''1'' CHR ''9'')))))
      else if d = CHR ''M'' then
        Some (Grp (code d)
          (Alt (Seq (Cls (char_range CHR ''0'' CHR ''5'')) (Cls is_digit))
               (Cls is_digit)))
      else if d = CHR ''S'' then
        Some (Grp (code d)
          (Alt (Seq (ch CHR ''6'') (Cls (char_range CHR ''0'' CHR ''1'')))
          (Alt (Seq (Cls (char_range CHR ''0'' CHR ''5'')) (Cls is_digit))
               (Cls is_digit))))
      else if d = CHR ''Y'' then
        Some (Grp (code d)
          (Seq (Cls is_digit) (Seq (Cls is_digit) (Seq (Cls is_digit) (Cls is_digit)))))
      else if d = CHR ''a'' then Some (Grp (code d) (alts weekday_abbrs))
      else if d = CHR ''b'' then Some (Grp (code d) (alts month_abbrs))
      else if d = CHR ''B'' then
        Some (Grp (code d)
          (alts [''september'', ''february'', ''november'', ''december'', ''january'',
                 ''october'', ''august'', ''march'', ''april'', ''june'', ''july'', ''may'']))
      else if d = CHR ''p'' then Some (Grp (code d) (alts [''am'', ''pm'']))
      else None)"

fun format_regex :: "string \<Rightarrow> regex option" where
  "format_regex [] = Some Eps"
| "format_regex (c # cs) =
     (if c = CHR ''%'' then
        (case cs of
           [] \<Rightarrow> None
         | d # ds \<Rightarrow>
             (case directive d of
                None \<Rightarrow> None
              | Some r \<Rightarrow> map_option (Seq r) (format_regex ds)))
      else if is_space c then
        (case cs of
           [] \<Rightarrow> Some (Plus is_space)
         | d # ds \<Rightarrow> if is_space d then format_regex cs
                     else map_option (Seq (Plus is_space)) (format_regex cs))
      else map_option (Seq (Cls (ci_eq c))) (format_regex cs))"

text \<open>The position of a name in a list of names, counted from 1.\<close>

fun index_of :: "string \<Rightarrow> string list \<Rightarrow> int" where
  "index_of w [] = 1"
| "index_of w (x # xs) = (if w = x then 1 else 1 + index_of w xs)"

definition bind :: "error + 'a \<Rightarrow> ('a \<Rightarrow> error + 'b) \<Rightarrow> error + 'b" where
  "bind x f = (case x of Inl e \<Rightarrow> Inl e | Inr v \<Rightarrow> f v)"

text \<open>
  The value of a numeric directive, with the library's default when the format does not
  hold it.
\<close>

definition field :: "nat \<Rightarrow> captures \<Rightarrow> char \<Rightarrow> int \<Rightarrow> error + int" where
  "field max_str_digits caps d dflt =
     (case caps (code d) of None \<Rightarrow> Inr dflt | Some g \<Rightarrow> py_int max_str_digits g)"

definition month_field :: "nat \<Rightarrow> captures \<Rightarrow> error + int" where
  "month_field max_str_digits caps =
     (case caps (code CHR ''m'') of
        Some g \<Rightarrow> py_int max_str_digits g
      | None \<Rightarrow>
         (case caps (code CHR ''B'') of
            Some g \<Rightarrow> Inr (index_of (lower g) month_names)
          | None \<Rightarrow>
             (case caps (code CHR ''b'') of
                Some g \<Rightarrow> Inr (index_of (lower g) month_abbrs)
              | None \<Rightarrow> Inr 1)))"

definition hour_field :: "nat \<Rightarrow> captures \<Rightarrow> error + int" where
  "hour_field max_str_digits caps =
     (case caps (code CHR ''H'') of
        Some g \<Rightarrow> py_int max_str_digits g
      | None \<Rightarrow>
         (case caps (code CHR ''I'') of
            None \<Rightarrow> Inr 0
          | Some g \<Rightarrow>
              bind (py_int max_str_digits g) (\<lambda>hour.
                let ampm = lower (group caps (code CHR ''p'')) in
                if ampm = [] \<or> ampm = ''am'' then Inr (if hour = 12 then 0 else hour)
                else if ampm = ''pm'' then Inr (if hour \<noteq> 12 then hour + 12 else hour)
                else Inr hour)))"

definition strptime :: "nat \<Rightarrow> string \<Rightarrow> string \<Rightarrow> error + datetime" where
  "strptime max_str_digits data_string format =
     (case format_regex format of
        None \<Rightarrow> Inl ValueError
      | Some r \<Rightarrow>
         (case re_match r data_string of
            None \<Rightarrow> Inl ValueError
          | Some (prev, rest, caps) \<Rightarrow>
              if rest \<noteq> [] then Inl ValueError
              else
                bind (field max_str_digits caps CHR ''Y'' 1900) (\<lambda>year.
                bind (month_field max_str_digits caps) (\<lambda>month.
                bind (field max_str_digits caps CHR ''d'' 1) (\<lambda>day.
                bind (hour_field max_str_digits caps) (\<lambda>hour.
                bind (field max_str_digits caps CHR ''M'' 0) (\<lambda>minute.
                bind (field max_str_digits caps CHR ''S'' 0) (\<lambda>second.
                  datetime_new year month day hour minute second))))))))"

subsection \<open>The date normaliser: \<open>parse_date\<close>\<close>

text \<open>\<open>Will be closed after:.*?(\d+)\s*days?.*?(\d+)\s*hours?\<close>, with \<open>re.IGNORECASE\<close>.\<close>

definition relative_re :: regex where
  "relative_re =
     Seq (lit ''Will be closed after:'')
    (Seq (LazyStar any_char)
    (Seq (Grp 1 (Plus is_digit))
    (Seq (Star is_space)
    (Seq (lit ''day'')
    (Seq (Opt (lit ''s''))
    (Seq (LazyStar any_char)
    (Seq (Grp 2 (Plus is_digit))
    (Seq (Star is_space)
    (Seq (lit ''hour'')
         (Opt (lit ''s'')))))))))))"

text \<open>\<open>^(Closed at:|Opened at:|Will be opened at:)\s*\<close>, with \<open>re.IGNORECASE\<close>.\<close>

definition label_re :: regex where
  "label_re =
     Seq Bol
    (Seq (Grp 1 (alts [''Closed at:'', ''Opened at:'', ''Will be opened at:'']))
         (Star is_space))"

text \<open>\<open>(\b\w{3})\s+(\d),\<close>, replaced by \<open>\1 0\2,\<close>.\<close>

definition day_re :: regex where
  "day_re =
     Seq (Grp 1 (Seq Bnd (Seq (Cls is_word) (Seq (Cls is_word) (Cls is_word)))))
    (Seq (Plus is_space)
    (Seq (Grp 2 (Cls is_digit))
         (ch CHR '','')))"

definition formats :: "string list" where
  "formats = [''%b %d, %Y at %I:%M %p'',
              ''%B %d, %Y at %I:%M %p'',
              ''%Y-%m-%d %H:%M:%S'',
              ''%m/%d/%Y %I:%M %p'',
              ''%a, %b %d, %Y %I:%M %p'']"

text \<open>
  The loop over the formats: the first format that parses wins; \<open>ValueError\<close> moves on to
  the next one, and after the last one the result is \<open>None\<close>.
\<close>

fun try_formats :: "nat \<Rightarrow> string \<Rightarrow> string list \<Rightarrow> error + datetime option" where
  "try_formats max_str_digits date_str_cleaned [] = Inr None"
| "try_formats max_str_digits date_str_cleaned (fmt # fmts) =
     (case strptime max_str_digits date_str_cleaned fmt of
        Inr parsed_date \<Rightarrow> Inr (Some parsed_date)
      | Inl e \<Rightarrow> if e = ValueError then try_formats max_str_digits date_str_cleaned fmts
                 else Inl e)"

definition clean_date_str :: "string \<Rightarrow> string" where
  "clean_date_str date_str =
     (let date_str_cleaned = strip (re_sub label_re (\<lambda>caps. []) None date_str)
      in re_sub day_re (\<lambda>caps. group caps 1 @ '' 0'' @ group caps 2 @ '','') None
           date_str_cleaned)"

definition parse_absolute :: "nat \<Rightarrow> string \<Rightarrow> error + datetime option" where
  "parse_absolute max_str_digits date_str =
     try_formats max_str_digits (clean_date_str date_str) formats"

text \<open>
  The relative branch, entered when the pattern matches. The handler of the \<open>try\<close> catches
  \<open>ValueError\<close> and \<open>IndexError\<close> and falls through to the absolute formats (\<open>None\<close> here);
  any other exception leaves the function.
\<close>

definition parse_relative :: "nat \<Rightarrow> datetime \<Rightarrow> captures \<Rightarrow> error + datetime option" where
  "parse_relative max_str_digits now relative_match =
     (case bind (py_int max_str_digits (group relative_match 1)) (\<lambda>days.
           bind (py_int max_str_digits (group relative_match 2)) (\<lambda>hours.
           bind (timedelta_new days hours) (\<lambda>delta.
             datetime_add now delta))) of
        Inr deadline \<Rightarrow> Inr (Some deadline)
      | Inl e \<Rightarrow> if e = ValueError \<or> e = IndexError then Inr None else Inl e)"

text \<open>
  \<open>now\<close> is the reading of \<open>datetime.now()\<close> in the relative branch. The result is the
  exception that leaves the function, or the returned date, or \<open>None\<close>.
\<close>

definition parse_date :: "nat \<Rightarrow> datetime \<Rightarrow> string \<Rightarrow> error + datetime option" where
  "parse_date max_str_digits now date_str0 =
     (if date_str0 = [] \<or>
         date_str0 \<in> set [''No Deadline Info'', ''No Status/Date'', ''N/A'', ''Unknown'']
      then Inr None
      else
        let date_str = strip (replace_newlines date_str0) in
        (case re_search relative_re date_str of
           None \<Rightarrow> parse_absolute max_str_digits date_str
         | Some relative_match \<Rightarrow>
            (case parse_relative max_str_digits now relative_match of
               Inl e \<Rightarrow> Inl e
             | Inr (Some deadline) \<Rightarrow> Inr (Some deadline)
             | Inr None \<Rightarrow> parse_absolute max_str_digits date_str)))"

subsection \<open>The scraped data\<close>

text \<open>
  A quiz or an assignment is a dictionary from field names to texts. The two extraction
  results keep the keys of the source; the keys \<open>courses_processed\<close> and
  \<open>courses_found_on_page\<close>, which both results have, carry the prefix of their result.
\<close>

type_synonym task = "string \<rightharpoonup> string"

record quiz_results =
  quizzes_with_results :: "task list"
  quizzes_without_results :: "task list"
  quiz_courses_processed :: nat
  total_quizzes_found :: nat
  quiz_courses_found_on_page :: "string list"
  quiz_courses_with_no_items :: "string list"
  quiz_courses_failed_expansion :: "string list"

record assignment_results =
  assignments_list :: "task list"
  assignment_courses_processed :: nat
  total_assignments_found :: nat
  assignment_courses_found_on_page :: "string list"
  assignment_courses_with_no_items :: "string list"
  assignment_courses_failed_expansion :: "string list"

record scraped_data =
  quizzes :: quiz_results
  assignments :: assignment_results

subsection \<open>The deadline evaluator: \<open>check_upcoming_deadlines\<close>\<close>

text \<open>The dictionaries that \<open>check_upcoming_deadlines\<close> builds, one per upcoming task.\<close>

record deadline =
  course :: string
  name :: string
  due_date_str :: string
  due_date_obj :: datetime
  days_left :: int
  task_type :: string

text \<open>\<open>d.get(key, default)\<close>\<close>

definition get_or :: "task \<Rightarrow> string \<Rightarrow> string \<Rightarrow> string" where
  "get_or d key dflt = (case d key of Some v \<Rightarrow> v | None \<Rightarrow> dflt)"

text \<open>
  \<open>task.get("closed_at") or task.get("status")\<close>: the first of the two that is there and
  not empty; \<open>None\<close> stands for a result that \<open>if not close_date_str\<close> skips.
\<close>

definition close_date_of :: "task \<Rightarrow> string option" where
  "close_date_of task =
     (case task ''closed_at'' of
        Some s \<Rightarrow> if s \<noteq> [] then Some s
                  else (case task ''status'' of Some t \<Rightarrow> if t \<noteq> [] then Some t else None
                        | None \<Rightarrow> None)
      | None \<Rightarrow> (case task ''status'' of Some t \<Rightarrow> if t \<noteq> [] then Some t else None
                 | None \<Rightarrow> None))"

text \<open>
  The body of \<open>if deadline:\<close> (a \<open>datetime\<close> is always true): the entry appended to
  \<open>upcoming\<close>, if any.
\<close>

definition upcoming_entry :: "datetime \<Rightarrow> int \<Rightarrow> task \<Rightarrow> string \<Rightarrow> datetime \<Rightarrow> deadline option" where
  "upcoming_entry now days_threshold task close_date_str deadline =
     (if deadline > now then
        (let time_difference = datetime_sub deadline now;
             days_left = days time_difference
         in if 0 \<le> days_left \<and> days_left \<le> days_threshold then
              Some \<lparr> course = get_or task ''course'' ''N/A'',
                     name = get_or task ''name'' ''Unnamed Task'',
                     due_date_str = close_date_str,
                     due_date_obj = deadline,
                     days_left = days_left,
                     task_type = get_or task ''type'' ''Task'' \<rparr>
            else None)
      else None)"

text \<open>
  The loop \<open>for task in all_tasks\<close>. \<open>clock i\<close> is the reading of \<open>datetime.now()\<close> that
  \<open>parse_date\<close> makes for the task at position \<open>i\<close>; \<open>now\<close> is the reading that the evaluator
  made before the loop. An exception of \<open>parse_date\<close> leaves the evaluator.
\<close>

fun check_tasks ::
  "nat \<Rightarrow> datetime \<Rightarrow> (nat \<Rightarrow> datetime) \<Rightarrow> int \<Rightarrow> nat \<Rightarrow> task list \<Rightarrow> deadline list
     \<Rightarrow> error + deadline list" where
  "check_tasks max_str_digits now clock days_threshold i [] upcoming = Inr upcoming"
| "check_tasks max_str_digits now clock days_threshold i (task # rest) upcoming =
     (case close_date_of task of
        None \<Rightarrow> check_tasks max_str_digits now clock days_threshold (i + 1) rest upcoming
      | Some close_date_str \<Rightarrow>
         (case parse_date max_str_digits (clock i) close_date_str of
            Inl e \<Rightarrow> Inl e
          | Inr None \<Rightarrow> check_tasks max_str_digits now clock days_threshold (i + 1) rest upcoming
          | Inr (Some deadline) \<Rightarrow>
             (case upcoming_entry now days_threshold task close_date_str deadline of
                None \<Rightarrow>
                  check_tasks max_str_digits now clock days_threshold (i + 1) rest upcoming
              | Some entry \<Rightarrow>
                  check_tasks max_str_digits now clock days_threshold (i + 1) rest
                    (upcoming @ [entry]))))"

definition all_tasks :: "scraped_data \<Rightarrow> task list" where
  "all_tasks data = assignments_list (assignments data)
                      @ quizzes_with_results (quizzes data)
                      @ quizzes_without_results (quizzes data)"

text \<open>\<open>upcoming.sort(key=lambda x: x["due_date_obj"])\<close> is a stable sort.\<close>

definition check_upcoming_deadlines ::
  "nat \<Rightarrow> datetime \<Rightarrow> (nat \<Rightarrow> datetime) \<Rightarrow> scraped_data \<Rightarrow> int \<Rightarrow> error + deadline list" where
  "check_upcoming_deadlines max_str_digits now clock data days_threshold =
     (if all_tasks data = [] then Inr []
      else bind (check_tasks max_str_digits now clock days_threshold 0 (all_tasks data) [])
             (\<lambda>upcoming. Inr (sort_key due_date_obj upcoming)))"

subsection \<open>The extractor: \<open>scrape_quizzes\<close> and \<open>scrape_assignments\<close>\<close>

text \<open>
  The browser is outside the module. Its answers are the input of the model: for every
  call that the extractor makes on an element, the text it returns or the exception it
  raises.

  A course section answers four calls: the script that scrolls it into view
  (\<open>scrolled\<close>, the exception if it raises), the wait for \<open>strong.course-name\<close> and the
  reading of its text (\<open>course_name_read\<close>), \<open>expand_course_panel\<close> (\<open>panel_expands\<close>: that
  function catches every exception and returns a truth value), and the wait for the item
  articles (\<open>items_wait\<close>).
\<close>

record 'item course_obs =
  scrolled :: "error option"
  course_name_read :: "error + string"
  panel_expands :: bool
  items_wait :: "error + 'item list"

text \<open>
  A quiz article answers the reading of four texts: of \<open>a.quiz-name\<close>, \<open>.quiz-status\<close> and
  \<open>.graded-status\<close> (empty when the element is missing) and of \<open>.quiz-attempts\<close> (\<open>None\<close> when
  the element is missing).
\<close>

record quiz_obs =
  quiz_name :: "error + string"
  quiz_status :: "error + string"
  quiz_graded_status :: "error + string"
  quiz_attempts :: "error + string option"

definition setdefault :: "task \<Rightarrow> string \<Rightarrow> string \<Rightarrow> task" where
  "setdefault d key v = (case d key of None \<Rightarrow> d(key \<mapsto> v) | Some old \<Rightarrow> d)"

text \<open>The \<open>closed_at\<close> field of a quiz from the text of its status.\<close>

definition quiz_closed_at :: "string \<Rightarrow> error + string" where
  "quiz_closed_at raw_status =
     (if contains ''Closed at:'' raw_status then
        bind (split_second ''Closed at:'' raw_status) (\<lambda>part. Inr (strip part))
      else if contains ''Will be opened at:'' raw_status then Inr raw_status
      else if contains ''Opened at:'' raw_status then Inr raw_status
      else Inr (if raw_status \<noteq> [] then raw_status else ''No Status/Date''))"

text \<open>
  A reading inside the \<open>try\<close> block of an item: its value goes on to the rest of the block,
  its exception leaves the block, together with the dictionary \<open>d\<close> as far as it is filled.
\<close>

definition reading :: "task \<Rightarrow> error + 'a \<Rightarrow> ('a \<Rightarrow> (error \<times> task) + 'b) \<Rightarrow> (error \<times> task) + 'b" where
  "reading d x f = (case x of Inl e \<Rightarrow> Inl (e, d) | Inr v \<Rightarrow> f v)"

text \<open>
  The \<open>try\<close> block of one quiz up to the classification: the dictionary built, or the
  exception raised together with the dictionary as far as it was filled.
\<close>

definition quiz_fields :: "string \<Rightarrow> quiz_obs \<Rightarrow> (error \<times> task) + task" where
  "quiz_fields course_name quiz =
     (let d0 = [''course'' \<mapsto> course_name, ''type'' \<mapsto> ''Quiz''] in
      reading d0 (quiz_name quiz) (\<lambda>name_text.
      let d1 = d0(''name'' \<mapsto> (if name_text \<noteq> [] then name_text else ''Unnamed Quiz'')) in
      reading d1 (quiz_status quiz) (\<lambda>raw_status.
      reading d1 (quiz_closed_at raw_status) (\<lambda>closed_at.
      let d2 = d1(''closed_at'' \<mapsto> closed_at) in
      reading d2 (quiz_graded_status quiz) (\<lambda>grade_text.
      let d3 = d2(''grade'' \<mapsto> (if grade_text \<noteq> [] \<and> grade_text \<noteq> ''--''
                                   then grade_text else ''Not Graded'')) in
      reading d3 (quiz_attempts quiz) (\<lambda>attempts.
      Inr (d3(''attempts'' \<mapsto> (case attempts of Some t \<Rightarrow> t
                                   | None \<Rightarrow> ''Attempts N/A'')))))))))"

text \<open>\<open>quiz_data["grade"] != "Not Graded" and "/" in quiz_data["grade"]\<close>\<close>

definition has_result :: "task \<Rightarrow> bool" where
  "has_result quiz_data \<longleftrightarrow>
     (case quiz_data ''grade'' of
        None \<Rightarrow> False
      | Some grade \<Rightarrow> grade \<noteq> ''Not Graded'' \<and> contains ''/'' grade)"

text \<open>
  The body of \<open>for quiz in quiz_articles\<close>: a stale element skips the quiz, any other
  exception files it without results, with defaults for the fields not yet read.
\<close>

definition extract_quiz :: "string \<Rightarrow> quiz_results \<Rightarrow> quiz_obs \<Rightarrow> quiz_results" where
  "extract_quiz course_name results quiz =
     (case quiz_fields course_name quiz of
        Inr quiz_data \<Rightarrow>
          if has_result quiz_data
          then results\<lparr>quizzes_with_results := quizzes_with_results results @ [quiz_data]\<rparr>
          else results\<lparr>quizzes_without_results := quizzes_without_results results @ [quiz_data]\<rparr>
      | Inl (e, quiz_data) \<Rightarrow>
          if e = StaleElementReferenceException then results
          else results\<lparr>quizzes_without_results := quizzes_without_results results @
                 [setdefault (setdefault (setdefault (setdefault quiz_data
                    ''name'' ''Error Processing Quiz'') ''closed_at'' ''Unknown'')
                    ''grade'' ''Unknown'') ''attempts'' ''Unknown'']\<rparr>)"

text \<open>The two handlers of the \<open>try\<close> block of one course section.\<close>

definition quiz_course_failed :: "error \<Rightarrow> string \<Rightarrow> quiz_results \<Rightarrow> quiz_results" where
  "quiz_course_failed e course_name results =
     (if e = StaleElementReferenceException then results
      else if course_name \<notin> set (quiz_courses_failed_expansion results)
      then results\<lparr>quiz_courses_failed_expansion :=
                     quiz_courses_failed_expansion results @ [course_name]\<rparr>
      else results)"

text \<open>
  The name of a course: the text read, or the default \<open>Unknown Course i+1\<close> when the wait
  times out or finds nothing; \<open>Inl\<close> is an exception that the inner handler does not catch.
\<close>

definition course_name_of :: "nat \<Rightarrow> 'item course_obs \<Rightarrow> error + string" where
  "course_name_of index section =
     (case course_name_read section of
        Inr text \<Rightarrow> Inr text
      | Inl e \<Rightarrow> if e = TimeoutException \<or> e = NoSuchElementException
                 then Inr (''Unknown Course '' @ dec (index + 1))
                 else Inl e)"

text \<open>The body of \<open>for index, course in enumerate(courses)\<close>; the course element is \<open>section\<close>.\<close>

definition quiz_course :: "nat \<Rightarrow> quiz_obs course_obs \<Rightarrow> quiz_results \<Rightarrow> quiz_results" where
  "quiz_course index section results =
     (let default_name = ''Unknown Course '' @ dec (index + 1) in
      case scrolled section of
        Some e \<Rightarrow> quiz_course_failed e default_name results
      | None \<Rightarrow>
        (case course_name_of index section of
           Inl e \<Rightarrow> quiz_course_failed e default_name results
         | Inr course_name \<Rightarrow>
           (let r1 = results\<lparr>quiz_courses_found_on_page :=
                               quiz_courses_found_on_page results @ [course_name]\<rparr> in
            if \<not> panel_expands section then
              r1\<lparr>quiz_courses_failed_expansion :=
                    quiz_courses_failed_expansion r1 @ [course_name]\<rparr>
            else
              (let r2 = r1\<lparr>quiz_courses_processed := quiz_courses_processed r1 + 1\<rparr> in
               case (case items_wait section of
                       Inr articles \<Rightarrow> Inr articles
                     | Inl e \<Rightarrow> if e = TimeoutException then Inr [] else Inl e) of
                 Inl e \<Rightarrow> quiz_course_failed e course_name r2
               | Inr quiz_articles \<Rightarrow>
                 (let r3 = (if quiz_articles = [] then
                              r2\<lparr>quiz_courses_with_no_items :=
                                    quiz_courses_with_no_items r2 @ [course_name]\<rparr>
                            else r2);
                      r4 = r3\<lparr>total_quizzes_found :=
                                 total_quizzes_found r3 + length quiz_articles\<rparr>
                  in foldl (extract_quiz course_name) r4 quiz_articles)))))"

fun quiz_courses :: "nat \<Rightarrow> quiz_obs course_obs list \<Rightarrow> quiz_results \<Rightarrow> quiz_results" where
  "quiz_courses index [] results = results"
| "quiz_courses index (section # rest) results =
     quiz_courses (index + 1) rest (quiz_course index section results)"

definition empty_quiz_results :: quiz_results where
  "empty_quiz_results =
     \<lparr> quizzes_with_results = [], quizzes_without_results = [], quiz_courses_processed = 0,
       total_quizzes_found = 0, quiz_courses_found_on_page = [],
       quiz_courses_with_no_items = [], quiz_courses_failed_expansion = [] \<rparr>"

text \<open>
  \<open>page\<close> is the answer to the wait for, and the listing of, \<open>section.course-item\<close>: a
  time-out returns the empty result, any other exception leaves the function.
\<close>

definition scrape_quizzes :: "error + quiz_obs course_obs list \<Rightarrow> error + quiz_results" where
  "scrape_quizzes page =
     (case page of
        Inl e \<Rightarrow> if e = TimeoutException then Inr empty_quiz_results else Inl e
      | Inr courses \<Rightarrow>
          if courses = [] then Inr empty_quiz_results
          else Inr (quiz_courses 0 courses empty_quiz_results))"

text \<open>
  An assignment article answers: the text of the first of its three candidate name
  elements (empty when there is none); the text of \<open>.submit-status\<close> (\<open>None\<close> when missing)
  and the texts of the \<open>div[class*='status']\<close> elements; for \<open>.assign-status\<close> (\<open>None\<close> when
  missing) the answer of the script reading \<open>innerText\<close> and the element's text; the texts
  of the \<open>div small\<close> elements; and the text of \<open>.graded-status\<close>.
\<close>

record assignment_obs =
  assign_name :: "error + string"
  submit_status :: "error + string option"
  status_divs :: "error + (error + string) list"
  assign_status :: "error + ((error + string) \<times> (error + string)) option"
  small_texts :: "error + (error + string) list"
  assign_graded_status :: "error + string"

text \<open>
  The loops over the texts of a list of elements: the first stripped text that passes the
  test, or the default.
\<close>

fun first_text :: "(string \<Rightarrow> bool) \<Rightarrow> string \<Rightarrow> (error + string) list \<Rightarrow> error + string" where
  "first_text ok dflt [] = Inr dflt"
| "first_text ok dflt (x # xs) =
     (case x of
        Inl e \<Rightarrow> Inl e
      | Inr t \<Rightarrow> if ok (strip t) then Inr (strip t) else first_text ok dflt xs)"

text \<open>
  \<open>\b(Jan|Feb|Mar|Apr|May|Jun|Jul|Aug|Sep|Oct|Nov|Dec)\b | \d{1,2}:\d{2} (AM|PM)| Will be closed\<close>,
  with \<open>re.IGNORECASE\<close>; the blanks belong to the pattern.
\<close>

definition date_like_re :: regex where
  "date_like_re =
     Alt (Seq Bnd
         (Seq (Grp 1 (alts [''Jan'', ''Feb'', ''Mar'', ''Apr'', ''May'', ''Jun'',
                            ''Jul'', ''Aug'', ''Sep'', ''Oct'', ''Nov'', ''Dec'']))
         (Seq Bnd (ch CHR '' ''))))
    (Alt (Seq (ch CHR '' '')
         (Seq (Cls is_digit)
         (Seq (Opt (Cls is_digit))
         (Seq (ch CHR '':'')
         (Seq (Cls is_digit)
         (Seq (Cls is_digit)
         (Seq (ch CHR '' '')
              (Grp 2 (alts [''AM'', ''PM''])))))))))
         (lit '' Will be closed''))"

definition assignment_closed_at :: "string \<Rightarrow> error + string" where
  "assignment_closed_at raw_date =
     (if contains ''Closed at:'' raw_date then
        bind (split_second ''Closed at:'' raw_date) (\<lambda>part. Inr (strip part))
      else if contains ''Will be closed after:'' raw_date then Inr raw_date
      else Inr (if raw_date \<noteq> [] then raw_date else ''No Deadline Info''))"

definition assignment_fields :: "string \<Rightarrow> assignment_obs \<Rightarrow> (error \<times> task) + task" where
  "assignment_fields course_name assignment =
     (let d0 = [''course'' \<mapsto> course_name, ''type'' \<mapsto> ''Assignment''] in
      reading d0 (assign_name assignment) (\<lambda>name_text.
      let d1 = d0(''name'' \<mapsto> (if name_text \<noteq> [] then name_text
                                  else ''Unnamed Assignment'')) in
      reading d1 (submit_status assignment) (\<lambda>submit_status_elem.
      reading d1 (case submit_status_elem of
                    Some t \<Rightarrow> Inr t
                  | None \<Rightarrow>
                      bind (status_divs assignment)
                        (first_text (\<lambda>t. contains ''Submitted'' t \<or> contains ''Not Submitted'' t)
                           ''Status Unknown'')) (\<lambda>found_status.
      let d2 = d1(''submit_status'' \<mapsto> found_status) in
      reading d2 (assign_status assignment) (\<lambda>date_elem.
      reading d2 (case date_elem of
                    Some (inner_text, text) \<Rightarrow>
                      (case inner_text of Inr t \<Rightarrow> Inr (strip t) | Inl e \<Rightarrow> text)
                  | None \<Rightarrow>
                      bind (small_texts assignment)
                        (first_text (\<lambda>t. re_search date_like_re t \<noteq> None) [])) (\<lambda>raw_date.
      reading d2 (assignment_closed_at raw_date) (\<lambda>closed_at.
      let d3 = d2(''closed_at'' \<mapsto> closed_at) in
      reading d3 (assign_graded_status assignment) (\<lambda>grade_text.
      Inr (d3(''grading_status'' \<mapsto> (if grade_text \<noteq> [] \<and> grade_text \<noteq> ''--''
                                         then grade_text else ''Not Graded Yet'')))))))))))"

definition extract_assignment ::
  "string \<Rightarrow> assignment_results \<Rightarrow> assignment_obs \<Rightarrow> assignment_results" where
  "extract_assignment course_name results assignment =
     (case assignment_fields course_name assignment of
        Inr assignment_data \<Rightarrow>
          results\<lparr>assignments_list := assignments_list results @ [assignment_data]\<rparr>
      | Inl (e, assignment_data) \<Rightarrow>
          if e = StaleElementReferenceException then results
          else results\<lparr>assignments_list := assignments_list results @
                 [setdefault (setdefault (setdefault (setdefault assignment_data
                    ''name'' ''Error Processing Assignment'') ''submit_status'' ''Unknown'')
                    ''closed_at'' ''Unknown'') ''grading_status'' ''Unknown'']\<rparr>)"

definition assignment_course_failed ::
  "error \<Rightarrow> string \<Rightarrow> assignment_results \<Rightarrow> assignment_results" where
  "assignment_course_failed e course_name results =
     (if e = StaleElementReferenceException then results
      else if course_name \<notin> set (assignment_courses_failed_expansion results)
      then results\<lparr>assignment_courses_failed_expansion :=
                     assignment_courses_failed_expansion results @ [course_name]\<rparr>
      else results)"

definition assignment_course ::
  "nat \<Rightarrow> assignment_obs course_obs \<Rightarrow> assignment_results \<Rightarrow> assignment_results" where
  "assignment_course index section results =
     (let default_name = ''Unknown Course '' @ dec (index + 1) in
      case scrolled section of
        Some e \<Rightarrow> assignment_course_failed e default_name results
      | None \<Rightarrow>
        (case course_name_of index section of
           Inl e \<Rightarrow> assignment_course_failed e default_name results
         | Inr course_name \<Rightarrow>
           (let r1 = results\<lparr>assignment_courses_found_on_page :=
                               assignment_courses_found_on_page results @ [course_name]\<rparr> in
            if \<not> panel_expands section then
              r1\<lparr>assignment_courses_failed_expansion :=
                    assignment_courses_failed_expansion r1 @ [course_name]\<rparr>
            else
              (let r2 = r1\<lparr>assignment_courses_processed :=
                              assignment_courses_processed r1 + 1\<rparr> in
               case (case items_wait section of
                       Inr articles \<Rightarrow> Inr articles
                     | Inl e \<Rightarrow> if e = TimeoutException then Inr [] else Inl e) of
                 Inl e \<Rightarrow> assignment_course_failed e course_name r2
               | Inr assignment_articles \<Rightarrow>
                 (let r3 = (if assignment_articles = [] then
                              r2\<lparr>assignment_courses_with_no_items :=
                                    assignment_courses_with_no_items r2 @ [course_name]\<rparr>
                            else r2);
                      r4 = r3\<lparr>total_assignments_found :=
                                 total_assignments_found r3 + length assignment_articles\<rparr>
                  in foldl (extract_assignment course_name) r4 assignment_articles)))))"

fun assignment_courses ::
  "nat \<Rightarrow> assignment_obs course_obs list \<Rightarrow> assignment_results \<Rightarrow> assignment_results" where
  "assignment_courses index [] results = results"
| "assignment_courses index (section # rest) results =
     assignment_courses (index + 1) rest (assignment_course index section results)"

definition empty_assignment_results :: assignment_results where
  "empty_assignment_results =
     \<lparr> assignments_list = [], assignment_courses_processed = 0, total_assignments_found = 0,
       assignment_courses_found_on_page = [], assignment_courses_with_no_items = [],
       assignment_courses_failed_expansion = [] \<rparr>"

definition scrape_assignments ::
  "error + assignment_obs course_obs list \<Rightarrow> error + assignment_results" where
  "scrape_assignments page =
     (case page of
        Inl e \<Rightarrow> if e = TimeoutException then Inr empty_assignment_results else Inl e
      | Inr courses \<Rightarrow>
          if courses = [] then Inr empty_assignment_results
          else Inr (assignment_courses 0 courses empty_assignment_results))"

subsection \<open>The authenticator: \<open>login\<close>\<close>

definition MAX_LOGIN_RETRIES :: int where
  "MAX_LOGIN_RETRIES = 3"

text \<open>
  What the handler of a failed attempt reads from the browser: \<open>driver.current_url\<close> and
  \<open>driver.page_source\<close>.
\<close>

record login_page =
  current_url :: string
  page_source :: string

text \<open>
  What one attempt does: the \<open>try\<close> block runs to its \<open>return\<close>, or raises. \<open>Raised e page\<close>
  is an exception \<open>e\<close> of the block, with what the browser shows at that moment, or the
  exception that reading it raises.
\<close>

datatype attempt_result = Logged_in | Raised error "error + login_page"

datatype login_io = Attempt int | Wait int

text \<open>
  The loop \<open>for attempt in range(max_retries)\<close>, with \<open>n\<close> iterations left. The first
  handler (\<open>TimeoutException\<close>, \<open>NoSuchElementException\<close>) only logs; the second one reads
  the page and raises on bad credentials. After either, the last attempt raises and every
  other one waits \<open>3 + attempt * 2\<close> seconds. A loop that ends returns nothing.
\<close>

fun login_loop ::
  "(int \<Rightarrow> attempt_result) \<Rightarrow> int \<Rightarrow> int \<Rightarrow> nat \<Rightarrow> (error + unit) \<times> login_io list" where
  "login_loop driver max_retries attempt 0 = (Inr (), [])"
| "login_loop driver max_retries attempt (Suc n) =
     (let after_handler =
            (if attempt < max_retries - 1 then
               (let (result, io) = login_loop driver max_retries (attempt + 1) n
                in (result, Attempt attempt # Wait (3 + attempt * 2) # io))
             else (Inl (Exception ''Maximum login attempts reached.''), [Attempt attempt]))
      in case driver attempt of
           Logged_in \<Rightarrow> (Inr (), [Attempt attempt])
         | Raised e page \<Rightarrow>
             if e = TimeoutException \<or> e = NoSuchElementException then after_handler
             else (case page of
                     Inl e' \<Rightarrow> (Inl e', [Attempt attempt])
                   | Inr p \<Rightarrow>
                       if contains ''Login.aspx'' (current_url p)
                          \<and> contains ''Invalid username or password'' (page_source p)
                       then (Inl (Exception ''Invalid credentials provided.''), [Attempt attempt])
                       else after_handler))"

definition login :: "(int \<Rightarrow> attempt_result) \<Rightarrow> int \<Rightarrow> (error + unit) \<times> login_io list" where
  "login driver max_retries = login_loop driver max_retries 0 (nat max_retries)"

subsection \<open>The notifier: \<open>send_deadline_alerts\<close>\<close>

text \<open>The JSON payload of a webhook request.\<close>

record embed_field =
  field_name :: string
  field_value :: string
  inline :: bool

record embed =
  title :: string
  description :: "string option"
  color :: nat
  embed_fields :: "embed_field list"
  footer :: "string option"

record message =
  content :: string
  embeds :: "embed list"

text \<open>
  What the function does to the outside world, in order: \<open>requests.post(url, json, timeout)\<close>
  and \<open>time.sleep\<close> (in milliseconds).
\<close>

datatype io = HttpPost string message nat | Sleep nat

text \<open>
  What a request does: it is answered with a success status, or \<open>requests.post\<close> or
  \<open>raise_for_status\<close> raises a \<open>RequestException\<close>, or something else is raised.
\<close>

datatype net_result = Sent_ok | Request_failed | Other_failure

definition DEADLINE_THRESHOLD_DAYS :: int where
  "DEADLINE_THRESHOLD_DAYS = 3"

definition max_embeds :: nat where
  "max_embeds = 10"

text \<open>\<open>range(start, stop, step)\<close> for a positive step.\<close>

definition py_range :: "nat \<Rightarrow> nat \<Rightarrow> nat \<Rightarrow> nat list" where
  "py_range start stop step =
     map (\<lambda>k. start + k * step) [0 ..< (stop - start + step - 1) div step]"

text \<open>\<open>[upcoming_tasks[i:i + max_embeds] for i in range(0, len(upcoming_tasks), max_embeds)]\<close>\<close>

definition chunks_of :: "'a list \<Rightarrow> 'a list list" where
  "chunks_of upcoming_tasks =
     map (\<lambda>i. take max_embeds (drop i upcoming_tasks))
       (py_range 0 (length upcoming_tasks) max_embeds)"

text \<open>\<open>not webhook_url or "discord.com/api/webhooks" not in webhook_url\<close>, negated.\<close>

definition valid_webhook :: "string \<Rightarrow> bool" where
  "valid_webhook webhook_url \<longleftrightarrow>
     webhook_url \<noteq> [] \<and> contains ''discord.com/api/webhooks'' webhook_url"

text \<open>
  The source file holds the two icons of the summary texts as the characters below
  (written here as their UTF-8 bytes).
\<close>

definition check_icon :: string where
  "check_icon = [CHR 0xC3, CHR 0xA2, CHR 0xC5, CHR 0x93, CHR 0xE2, CHR 0x80, CHR 0xA6]"

definition bell_icon :: string where
  "bell_icon = [CHR 0xC3, CHR 0xB0, CHR 0xC5, CHR 0xB8, CHR 0xE2, CHR 0x80, CHR 0x9D,
                CHR 0xE2, CHR 0x80, CHR 0x9D]"

text \<open>
  \<open>strftime\<close> is the library's formatting of a \<open>datetime\<close>; it is a parameter of the model.
\<close>

definition all_clear_message :: "(datetime \<Rightarrow> string \<Rightarrow> string) \<Rightarrow> datetime \<Rightarrow> message" where
  "all_clear_message strftime now =
     \<lparr> content = check_icon @ '' **All Clear!**'',
       embeds = [\<lparr> title = ''No Upcoming Deadlines'',
                   description = Some (''No assignments or quizzes found due in the next ''
                                        @ str_int DEADLINE_THRESHOLD_DAYS @ '' days.''),
                   color = 3066993,
                   embed_fields = [],
                   footer = Some (''Checked on: '' @ strftime now ''%Y-%m-%d %H:%M:%S'') \<rparr>] \<rparr>"

definition task_embed :: "(datetime \<Rightarrow> string \<Rightarrow> string) \<Rightarrow> deadline \<Rightarrow> embed" where
  "task_embed strftime task =
     (let color = (if days_left task \<le> 1 then 15158332
                   else if days_left task \<le> 3 then 15105570
                   else 16776960);
          days_left_str = (if days_left task = 0 then ''**Due Today!**''
                           else if days_left task = 1 then ''**Due Tomorrow!**''
                           else str_int (days_left task) @ '' days'')
      in \<lparr> title = task_type task @ '': '' @ name task,
           description = None,
           color = color,
           embed_fields = [\<lparr> field_name = ''Course'', field_value = course task, inline = True \<rparr>,
                     \<lparr> field_name = ''Due Date'',
                       field_value = strftime (due_date_obj task) ''%a, %b %d, %Y %I:%M %p'',
                       inline = True \<rparr>,
                     \<lparr> field_name = ''Days Left'', field_value = days_left_str,
                       inline = True \<rparr>],
           footer = None \<rparr>)"

definition chunk_message ::
  "(datetime \<Rightarrow> string \<Rightarrow> string) \<Rightarrow> datetime \<Rightarrow> nat \<Rightarrow> nat \<Rightarrow> deadline list \<Rightarrow> message" where
  "chunk_message strftime now i n chunk =
     \<lparr> content = bell_icon @ '' **Upcoming Deadlines Alert!** (Part '' @ dec (i + 1) @ ''/''
                   @ dec n @ '') - Checked: '' @ strftime now ''%H:%M'',
       embeds = map (task_embed strftime) chunk \<rparr>"

text \<open>
  The loop \<open>for i, chunk in enumerate(chunks)\<close>. \<open>net i\<close> is what the network does to the
  request of chunk \<open>i\<close>, \<open>clock i\<close> the reading of \<open>datetime.now()\<close> when its summary text is
  built; \<open>n\<close> is \<open>len(chunks)\<close>. Both handlers of the loop body only log.
\<close>

fun send_chunks ::
  "(datetime \<Rightarrow> string \<Rightarrow> string) \<Rightarrow> (nat \<Rightarrow> datetime) \<Rightarrow> (nat \<Rightarrow> net_result) \<Rightarrow> string
     \<Rightarrow> nat \<Rightarrow> nat \<Rightarrow> deadline list list \<Rightarrow> io list" where
  "send_chunks strftime clock net webhook_url n i [] = []"
| "send_chunks strftime clock net webhook_url n i (chunk # rest) =
     HttpPost webhook_url (chunk_message strftime (clock i) i n chunk) 15
       # (if net i = Sent_ok \<and> n > 1 \<and> i < n - 1 then [Sleep 1200] else [])
       @ send_chunks strftime clock net webhook_url n (i + 1) rest"

text \<open>
  \<open>send_deadline_alerts\<close> returns nothing; the model returns the exception that leaves it,
  if any, and the effects in order. Only the request of the "all clear" branch can raise
  past the function: its handler catches \<open>RequestException\<close> alone.
\<close>

definition send_deadline_alerts ::
  "(datetime \<Rightarrow> string \<Rightarrow> string) \<Rightarrow> (nat \<Rightarrow> datetime) \<Rightarrow> (nat \<Rightarrow> net_result)
     \<Rightarrow> deadline list \<Rightarrow> string \<Rightarrow> error option \<times> io list" where
  "send_deadline_alerts strftime clock net upcoming_tasks webhook_url =
     (if \<not> valid_webhook webhook_url then (None, [])
      else let chunks = chunks_of upcoming_tasks in
        if chunks = [] then
          (if net 0 = Other_failure then Some (Exception ''requests.post'') else None,
           [HttpPost webhook_url (all_clear_message strftime (clock 0)) 10])
        else (None, send_chunks strftime clock net webhook_url (length chunks) 0 chunks))"

text \<open>The requests among the effects, and the tasks a chunk request carries.\<close>

fun posts :: "io list \<Rightarrow> message list" where
  "posts [] = []"
| "posts (HttpPost u m t # es) = m # posts es"
| "posts (Sleep ms # es) = posts es"
subsection \<open>What the evaluator is to return\<close>

text \<open>
  The statement of the evaluator's result, to compare the loop with: for the tasks from
  position \<open>i\<close> on and in their order, the entry of every task whose date text parses to a
  moment after \<open>now\<close> with at most \<open>T\<close> whole days left.
\<close>

fun due_entries ::
  "nat \<Rightarrow> datetime \<Rightarrow> (nat \<Rightarrow> datetime) \<Rightarrow> int \<Rightarrow> nat \<Rightarrow> task list \<Rightarrow> deadline list" where
  "due_entries lim now clock T i [] = []"
| "due_entries lim now clock T i (task # rest) =
     (case close_date_of task of
        None \<Rightarrow> []
      | Some s \<Rightarrow>
         (case parse_date lim (clock i) s of
            Inr (Some d) \<Rightarrow>
              if now < d \<and> 0 \<le> (d - now) div DAY \<and> (d - now) div DAY \<le> T
              then [\<lparr> course = get_or task ''course'' ''N/A'',
                      name = get_or task ''name'' ''Unnamed Task'',
                      due_date_str = s, due_date_obj = d,
                      days_left = (d - now) div DAY,
                      task_type = get_or task ''type'' ''Task'' \<rparr>]
              else []
          | _ \<Rightarrow> []))
     @ due_entries lim now clock T (i + 1) rest"

text \<open>No date text of the tasks makes \<open>parse_date\<close> raise.\<close>

fun parses :: "nat \<Rightarrow> (nat \<Rightarrow> datetime) \<Rightarrow> nat \<Rightarrow> task list \<Rightarrow> bool" where
  "parses lim clock i [] = True"
| "parses lim clock i (task # rest) =
     ((case close_date_of task of
         None \<Rightarrow> True
       | Some s \<Rightarrow> (case parse_date lim (clock i) s of Inl e \<Rightarrow> False | Inr r \<Rightarrow> True))
      \<and> parses lim clock (i + 1) rest)"

subsection \<open>Sample inputs\<close>

text \<open>The moment 2026-11-04 12:00:00, and a clock that stands still.\<close>

definition sample_now :: datetime where
  "sample_now = 63929390400000000"

definition steady_clock :: "datetime \<Rightarrow> nat \<Rightarrow> datetime" where
  "steady_clock t i = t"

definition sample_assignment :: "string \<Rightarrow> task" where
  "sample_assignment closed_at =
     [''course'' \<mapsto> ''CS101'', ''type'' \<mapsto> ''Assignment'', ''name'' \<mapsto> ''Sheet 1'',
      ''submit_status'' \<mapsto> ''Not Submitted'', ''closed_at'' \<mapsto> closed_at,
      ''grading_status'' \<mapsto> ''Not Graded Yet'']"

definition sample_quiz :: "string \<Rightarrow> task" where
  "sample_quiz closed_at =
     [''course'' \<mapsto> ''CS101'', ''type'' \<mapsto> ''Quiz'', ''name'' \<mapsto> ''Quiz 1'',
      ''closed_at'' \<mapsto> closed_at, ''grade'' \<mapsto> ''Not Graded'',
      ''attempts'' \<mapsto> ''1'']"

definition sample_data :: "task list \<Rightarrow> task list \<Rightarrow> scraped_data" where
  "sample_data assignment_tasks quiz_tasks =
     \<lparr> quizzes = empty_quiz_results\<lparr>quizzes_without_results := quiz_tasks\<rparr>,
       assignments = empty_assignment_results\<lparr>assignments_list := assignment_tasks\<rparr> \<rparr>"

text \<open>
  The login page after a rejected password, and a browser on which every wait of the login
  attempt times out while that page is shown.
\<close>

definition rejected_page :: login_page where
  "rejected_page =
     \<lparr> current_url = ''https://dulms.deltauniv.edu.eg/Login.aspx'',
       page_source = ''<span class=error>Invalid username or password</span>'' \<rparr>"

definition times_out_on_rejection :: "int \<Rightarrow> attempt_result" where
  "times_out_on_rejection attempt = Raised TimeoutException (Inr rejected_page)"

text \<open>
  An attempt that the loop retries: it raises, and either its exception is one of the two
  of the first handler, or the page read by the second handler does not report bad
  credentials.
\<close>

definition retryable :: "attempt_result \<Rightarrow> bool" where
  "retryable r =
     (case r of
        Logged_in \<Rightarrow> False
      | Raised e page \<Rightarrow>
          e = TimeoutException \<or> e = NoSuchElementException \<or>
          (case page of
             Inl e' \<Rightarrow> False
           | Inr p \<Rightarrow> \<not> (contains ''Login.aspx'' (current_url p)
                       \<and> contains ''Invalid username or password'' (page_source p))))"

text \<open>
  A course section whose processing raises nothing before the course is recorded as found,
  and nothing but a time-out or a stale element once it is counted as processed.
\<close>

definition undisturbed :: "'item course_obs \<Rightarrow> bool" where
  "undisturbed section \<longleftrightarrow>
     scrolled section = None
     \<and> (case course_name_read section of
          Inr text \<Rightarrow> True
        | Inl e \<Rightarrow> e = TimeoutException \<or> e = NoSuchElementException)
     \<and> (panel_expands section \<longrightarrow>
          (case items_wait section of
             Inr articles \<Rightarrow> True
           | Inl e \<Rightarrow> e = TimeoutException \<or> e = StaleElementReferenceException))"

text \<open>The name under which the extractor records the section at position \<open>index\<close>.\<close>

definition recorded_name :: "nat \<times> 'item course_obs \<Rightarrow> string" where
  "recorded_name p =
     (case course_name_of (fst p) (snd p) of
        Inr course_name \<Rightarrow> course_name
      | Inl e \<Rightarrow> ''Unknown Course '' @ dec (fst p + 1))"

text \<open>
  A course section that expands and whose wait for the items raises, and a quiz whose grade
  reads 8/10 and whose attempts cannot be read.
\<close>

definition failing_after_count :: "'item course_obs" where
  "failing_after_count =
     \<lparr> scrolled = None, course_name_read = Inr ''Algorithms'', panel_expands = True,
       items_wait = Inl (Exception ''Message: unknown error'') \<rparr>"

definition half_read_quiz :: quiz_obs where
  "half_read_quiz =
     \<lparr> quiz_name = Inr ''Quiz 1'', quiz_status = Inr ''Closed at: Dec 5, 2024 at 11:59 PM'',
       quiz_graded_status = Inr ''8/10'',
       quiz_attempts = Inl (Exception ''Message: unknown error'') \<rparr>"

text \<open>
  Course sections without items: one that is read without any exception, expanding or
  not, and one whose wait for the items finds the section stale.
\<close>

definition quiet_section :: "string \<Rightarrow> bool \<Rightarrow> 'item course_obs" where
  "quiet_section course_name expands =
     \<lparr> scrolled = None, course_name_read = Inr course_name, panel_expands = expands,
       items_wait = Inr [] \<rparr>"

definition stale_after_count :: "'item course_obs" where
  "stale_after_count =
     \<lparr> scrolled = None, course_name_read = Inr ''Networks'', panel_expands = True,
       items_wait = Inl StaleElementReferenceException \<rparr>"


section \<open>Properties\<close>

subsection \<open>Evaluating the definitions on given inputs\<close>

lemmas char_defs = code_def is_space_def is_digit_def is_word_def lower_char_def upper_chars_def
  lower_chars_def lower_def ci_eq_def char_range_def any_char_def ch_def word_opt_def

lemmas string_defs = strip_def replace_newlines_def py_int_def digits_val_def digit_val_def
  split_second_def group_def bind_def

lemmas regex_defs = lit_def Plus_def Opt_def accept_def re_match_def re_search_def re_sub.simps
  relative_re_def label_re_def day_re_def

lemmas date_defs = SECOND_def MINUTE_def HOUR_def DAY_def is_leap_def days_in_month_def
  days_before_year_def days_before_month_def ymd2ord_def MAX_ORDINAL_def valid_datetime_def
  datetime_new_def timedelta_new_def datetime_add_def datetime_sub_def days_def upto.simps

lemmas strptime_defs = month_abbrs_def month_names_def weekday_abbrs_def directive_def
  field_def month_field_def hour_field_def strptime_def formats_def

lemmas parse_defs = clean_date_str_def parse_absolute_def parse_relative_def parse_date_def

lemmas sample_defs = sample_now_def steady_clock_def sample_assignment_def sample_quiz_def
  sample_data_def empty_quiz_results_def empty_assignment_results_def all_tasks_def
  close_date_of_def get_or_def

lemmas eval_defs = char_defs string_defs regex_defs date_defs strptime_defs parse_defs sample_defs


subsection \<open>The deadline evaluator\<close>

lemma check_tasks_due_entries:
  "parses lim clock i tasks \<Longrightarrow>
   check_tasks lim now clock T i tasks upcoming
     = Inr (upcoming @ due_entries lim now clock T i tasks)"
proof (induction tasks arbitrary: i upcoming)
  case Nil
  show ?case by simp
next
  case (Cons task rest)
  from Cons.prems have rest: "parses lim clock (i + 1) rest" by simp
  show ?case
  proof (cases "close_date_of task")
    case None
    then show ?thesis using Cons.IH [OF rest] by simp
  next
    case (Some s)
    with Cons.prems obtain r where r: "parse_date lim (clock i) s = Inr r"
      by (auto split: sum.splits)
    show ?thesis
    proof (cases r)
      case None
      then show ?thesis using Some r Cons.IH [OF rest] by simp
    next
      case (Some d)
      then show ?thesis using \<open>close_date_of task = Some s\<close> r Cons.IH [OF rest]
        by (simp add: upcoming_entry_def datetime_sub_def days_def Let_def)
    qed
  qed
qed

lemma due_entries_window:
  "x \<in> set (due_entries lim now clock T i tasks) \<Longrightarrow>
     now < due_date_obj x \<and> days_left x = (due_date_obj x - now) div DAY
     \<and> 0 \<le> days_left x \<and> days_left x \<le> T"
  by (induction tasks arbitrary: i) (auto split: option.splits sum.splits if_splits)

lemma due_entries_iff:
  "x \<in> set (due_entries lim now clock T i tasks) \<longleftrightarrow>
     (\<exists>j s d. j < length tasks \<and> close_date_of (tasks ! j) = Some s
        \<and> parse_date lim (clock (i + j)) s = Inr (Some d)
        \<and> now < d \<and> (d - now) div DAY \<le> T
        \<and> x = \<lparr> course = get_or (tasks ! j) ''course'' ''N/A'',
                 name = get_or (tasks ! j) ''name'' ''Unnamed Task'',
                 due_date_str = s, due_date_obj = d,
                 days_left = (d - now) div DAY,
                 task_type = get_or (tasks ! j) ''type'' ''Task'' \<rparr>)"
  (is "?L i tasks \<longleftrightarrow> ?R i tasks")
proof (induction tasks arbitrary: i)
  case Nil
  show ?case by simp
next
  case (Cons task rest)
  have pos: "now < d \<Longrightarrow> 0 \<le> (d - now) div DAY" for d
    by (simp add: DAY_def pos_imp_zdiv_nonneg_iff)
  let ?E = "\<lambda>s d. \<lparr> course = get_or task ''course'' ''N/A'',
                 name = get_or task ''name'' ''Unnamed Task'',
                 due_date_str = s, due_date_obj = d,
                 days_left = (d - now) div DAY,
                 task_type = get_or task ''type'' ''Task'' \<rparr>"
  have head: "x \<in> set (due_entries lim now clock T i [task]) \<longleftrightarrow>
     (\<exists>s d. close_date_of task = Some s \<and> parse_date lim (clock i) s = Inr (Some d)
        \<and> now < d \<and> (d - now) div DAY \<le> T \<and> x = ?E s d)"
    using pos by (auto split: option.splits sum.splits)
  have split: "?R i (task # rest) \<longleftrightarrow>
     (\<exists>s d. close_date_of task = Some s \<and> parse_date lim (clock i) s = Inr (Some d)
        \<and> now < d \<and> (d - now) div DAY \<le> T \<and> x = ?E s d) \<or> ?R (i + 1) rest"
  proof
    assume "?R i (task # rest)"
    then obtain j s d where j: "j < length (task # rest)"
      and c: "close_date_of ((task # rest) ! j) = Some s"
      and p: "parse_date lim (clock (i + j)) s = Inr (Some d)"
      and w: "now < d" "(d - now) div DAY \<le> T"
      and x: "x = \<lparr> course = get_or ((task # rest) ! j) ''course'' ''N/A'',
                 name = get_or ((task # rest) ! j) ''name'' ''Unnamed Task'',
                 due_date_str = s, due_date_obj = d,
                 days_left = (d - now) div DAY,
                 task_type = get_or ((task # rest) ! j) ''type'' ''Task'' \<rparr>"
      by blast
    show "(\<exists>s d. close_date_of task = Some s \<and> parse_date lim (clock i) s = Inr (Some d)
        \<and> now < d \<and> (d - now) div DAY \<le> T \<and> x = ?E s d) \<or> ?R (i + 1) rest"
    proof (cases j)
      case 0
      then show ?thesis using c p w x by auto
    next
      case (Suc j')
      then have "j' < length rest \<and> close_date_of (rest ! j') = Some s
        \<and> parse_date lim (clock (i + 1 + j')) s = Inr (Some d)"
        using j c p by simp
      then show ?thesis using w x Suc by auto
    qed
  next
    assume "(\<exists>s d. close_date_of task = Some s \<and> parse_date lim (clock i) s = Inr (Some d)
        \<and> now < d \<and> (d - now) div DAY \<le> T \<and> x = ?E s d) \<or> ?R (i + 1) rest"
    then show "?R i (task # rest)"
    proof
      assume "\<exists>s d. close_date_of task = Some s \<and> parse_date lim (clock i) s = Inr (Some d)
        \<and> now < d \<and> (d - now) div DAY \<le> T \<and> x = ?E s d"
      then obtain s d where "close_date_of task = Some s" "parse_date lim (clock i) s = Inr (Some d)"
        "now < d" "(d - now) div DAY \<le> T" "x = ?E s d" by blast
      then show ?thesis by (intro exI [of _ 0] exI [of _ s] exI [of _ d]) simp
    next
      assume "?R (i + 1) rest"
      then obtain j s d where "j < length rest" "close_date_of (rest ! j) = Some s"
        "parse_date lim (clock (i + 1 + j)) s = Inr (Some d)" "now < d" "(d - now) div DAY \<le> T"
        "x = \<lparr> course = get_or (rest ! j) ''course'' ''N/A'',
                 name = get_or (rest ! j) ''name'' ''Unnamed Task'',
                 due_date_str = s, due_date_obj = d,
                 days_left = (d - now) div DAY,
                 task_type = get_or (rest ! j) ''type'' ''Task'' \<rparr>" by blast
      then show ?thesis by (intro exI [of _ "Suc j"] exI [of _ s] exI [of _ d]) simp
    qed
  qed
  have "?L i (task # rest) \<longleftrightarrow> x \<in> set (due_entries lim now clock T i [task]) \<or> ?L (i + 1) rest"
    by auto
  then show ?case unfolding head split using Cons.IH [of "i + 1"] by simp
qed

lemma check_upcoming_deadlines_run:
  assumes "parses lim clock 0 (all_tasks data)"
  shows "check_upcoming_deadlines lim now clock data T
           = Inr (sort_key due_date_obj (due_entries lim now clock T 0 (all_tasks data)))"
proof (cases "all_tasks data = []")
  case True
  then show ?thesis by (simp add: check_upcoming_deadlines_def)
next
  case False
  then show ?thesis
    using check_tasks_due_entries [OF assms, of now T "[]"]
    by (simp add: check_upcoming_deadlines_def bind_def)
qed

text \<open>
  The result of the evaluator on every dataset whose date texts \<open>parse_date\<close> parses
  without raising: exactly the entries of the tasks whose date text parses to a moment
  strictly after \<open>now\<close> with \<open>0 \<le> days_left \<le> threshold\<close> (so a past date is left out,
  \<open>days_left = threshold\<close> is kept and \<open>threshold + 1\<close> is left out), sorted by due date,
  entries with the same due date in the order of the input.
\<close>

lemma evaluator_result:
  assumes "parses lim clock 0 (all_tasks data)"
  shows "\<exists>out. check_upcoming_deadlines lim now clock data T = Inr out
     \<and> out = sort_key due_date_obj (due_entries lim now clock T 0 (all_tasks data))
     \<and> sorted (map due_date_obj out)
     \<and> (\<forall>k. filter (\<lambda>x. due_date_obj x = k) out
              = filter (\<lambda>x. due_date_obj x = k) (due_entries lim now clock T 0 (all_tasks data)))
     \<and> (\<forall>x. x \<in> set out \<longleftrightarrow>
          (\<exists>j s d. j < length (all_tasks data) \<and> close_date_of (all_tasks data ! j) = Some s
             \<and> parse_date lim (clock j) s = Inr (Some d)
             \<and> now < d \<and> (d - now) div DAY \<le> T
             \<and> x = \<lparr> course = get_or (all_tasks data ! j) ''course'' ''N/A'',
                      name = get_or (all_tasks data ! j) ''name'' ''Unnamed Task'',
                      due_date_str = s, due_date_obj = d,
                      days_left = (d - now) div DAY,
                      task_type = get_or (all_tasks data ! j) ''type'' ''Task'' \<rparr>))
     \<and> (\<forall>x \<in> set out. now < due_date_obj x \<and> 0 \<le> days_left x \<and> days_left x \<le> T
            \<and> days_left x = (due_date_obj x - now) div DAY)"
proof -
  let ?sel = "due_entries lim now clock T 0 (all_tasks data)"
  have run: "check_upcoming_deadlines lim now clock data T = Inr (sort_key due_date_obj ?sel)"
    by (rule check_upcoming_deadlines_run [OF assms])
  have mem: "x \<in> set (sort_key due_date_obj ?sel) \<longleftrightarrow>
          (\<exists>j s d. j < length (all_tasks data) \<and> close_date_of (all_tasks data ! j) = Some s
             \<and> parse_date lim (clock j) s = Inr (Some d)
             \<and> now < d \<and> (d - now) div DAY \<le> T
             \<and> x = \<lparr> course = get_or (all_tasks data ! j) ''course'' ''N/A'',
                      name = get_or (all_tasks data ! j) ''name'' ''Unnamed Task'',
                      due_date_str = s, due_date_obj = d,
                      days_left = (d - now) div DAY,
                      task_type = get_or (all_tasks data ! j) ''type'' ''Task'' \<rparr>)" for x
    using due_entries_iff [of x lim now clock T 0 "all_tasks data"] by simp
  have win: "\<forall>x \<in> set (sort_key due_date_obj ?sel).
      now < due_date_obj x \<and> 0 \<le> days_left x \<and> days_left x \<le> T
            \<and> days_left x = (due_date_obj x - now) div DAY"
  proof
    fix x assume "x \<in> set (sort_key due_date_obj ?sel)"
    then have "x \<in> set ?sel" by simp
    from due_entries_window [OF this]
    show "now < due_date_obj x \<and> 0 \<le> days_left x \<and> days_left x \<le> T
            \<and> days_left x = (due_date_obj x - now) div DAY" by simp
  qed
  show ?thesis
    unfolding run
    by (intro exI [of _ "sort_key due_date_obj ?sel"] conjI refl sorted_sort_key
        allI sort_key_stable mem win)
qed

lemma parse_two_days: "parse_date 4300 sample_now ''Will be closed after: 2 days 5 hours''
    = Inr (Some (sample_now + 2 * DAY + 5 * HOUR))"
  by (simp add: eval_defs)

lemma parse_past_date: "parse_date 4300 sample_now ''Dec 5, 2024 at 11:59 PM''
    = Inr (Some 63869039940000000)"
  by (simp add: eval_defs)

text \<open>
  The scenario of the specification: an assignment due in two days and a quiz with a past
  date, threshold 3; one deadline comes back, the assignment's, with two days left.
\<close>

lemma evaluator_result_example:
  "parses 4300 (steady_clock sample_now) 0
     (all_tasks (sample_data [sample_assignment ''Will be closed after: 2 days 5 hours'']
                             [sample_quiz ''Dec 5, 2024 at 11:59 PM''])) \<and>
   check_upcoming_deadlines 4300 sample_now (steady_clock sample_now)
     (sample_data [sample_assignment ''Will be closed after: 2 days 5 hours'']
                  [sample_quiz ''Dec 5, 2024 at 11:59 PM'']) 3
     = Inr [\<lparr> course = ''CS101'', name = ''Sheet 1'',
               due_date_str = ''Will be closed after: 2 days 5 hours'',
               due_date_obj = sample_now + 2 * DAY + 5 * HOUR, days_left = 2,
               task_type = ''Assignment'' \<rparr>]"
proof -
  have p: "parses 4300 (steady_clock sample_now) 0
     (all_tasks (sample_data [sample_assignment ''Will be closed after: 2 days 5 hours'']
                             [sample_quiz ''Dec 5, 2024 at 11:59 PM'']))"
    using parse_two_days parse_past_date by (simp add: sample_defs)
  have d: "due_entries 4300 sample_now (steady_clock sample_now) 3 0
     (all_tasks (sample_data [sample_assignment ''Will be closed after: 2 days 5 hours'']
                             [sample_quiz ''Dec 5, 2024 at 11:59 PM'']))
     = [\<lparr> course = ''CS101'', name = ''Sheet 1'',
               due_date_str = ''Will be closed after: 2 days 5 hours'',
               due_date_obj = sample_now + 2 * DAY + 5 * HOUR, days_left = 2,
               task_type = ''Assignment'' \<rparr>]"
    using parse_two_days parse_past_date by (simp add: sample_defs DAY_def HOUR_def)
  show ?thesis
    using evaluator_result [OF p, of sample_now 3] p by (simp add: d)
qed

text \<open>
  C1. The claim is that the evaluator returns, for every scraped dataset, the tasks due
  within the threshold, sorted by due date. \<open>parse_date\<close> lets the \<open>OverflowError\<close> of a
  relative date beyond the year 9999 pass, and the evaluator calls it unguarded: on the
  dataset below, one assignment that closes after 4000000 days, the evaluator raises and
  returns nothing.
\<close>

theorem evaluator_raises_with_parser:
  "check_upcoming_deadlines 4300 sample_now (steady_clock sample_now)
     (sample_data [sample_assignment ''Will be closed after: 4000000 days 1 hours''] []) 3
     = Inl OverflowError"
proof -
  have "parse_date 4300 sample_now ''Will be closed after: 4000000 days 1 hours''
          = Inl OverflowError"
    by (simp add: eval_defs)
  then show ?thesis
    by (simp add: check_upcoming_deadlines_def bind_def sample_defs)
qed


subsection \<open>Whole days left\<close>

lemma whole_days:
  "((x::int) div DAY) * DAY \<le> x \<and> x < (x div DAY + 1) * DAY"
proof -
  have p: "0 < DAY" by (simp add: DAY_def)
  have e: "x = (x div DAY) * DAY + x mod DAY" by simp
  have m: "0 \<le> x mod DAY" "x mod DAY < DAY" using p by simp_all
  have "(x div DAY + 1) * DAY = (x div DAY) * DAY + DAY" by (simp add: distrib_right)
  then show ?thesis using e m by linarith
qed

lemma whole_days_unique:
  assumes "d * DAY \<le> x" "x < (d + 1) * DAY"
  shows "x div DAY = d"
proof (rule int_div_pos_eq [of x DAY d "x - d * DAY"])
  show "x = DAY * d + (x - d * DAY)" by (simp add: mult.commute)
  show "0 \<le> x - d * DAY" using assms by simp
  have "(d + 1) * DAY = d * DAY + DAY" by (simp add: distrib_right)
  then show "x - d * DAY < DAY" using assms by linarith
qed

lemma days_of_offset:
  assumes "0 \<le> h" "h < 24"
  shows "(T * DAY + h * HOUR) div DAY = T"
proof (rule whole_days_unique)
  have "0 \<le> h * HOUR" "h * HOUR < DAY"
    using assms by (simp_all add: HOUR_def DAY_def)
  then show "T * DAY \<le> T * DAY + h * HOUR" "T * DAY + h * HOUR < (T + 1) * DAY"
    by (simp_all add: distrib_right)
qed

text \<open>
  The body of the loop, for every task, date text, threshold and due date: an entry is
  appended exactly when the due date is strictly after \<open>now\<close> and less than
  \<open>threshold + 1\<close> full days away, and its \<open>days_left\<close> is the number \<open>d\<close> of whole days in
  \<open>due - now\<close>, that is \<open>d\<close> days \<open>\<le> due - now <\<close> \<open>d + 1\<close> days.
\<close>

lemma days_left_truncation:
  "((\<exists>e. upcoming_entry now T task s due = Some e)
      \<longleftrightarrow> now < due \<and> due < now + (T + 1) * DAY)
   \<and> (\<forall>e. upcoming_entry now T task s due = Some e \<longrightarrow>
         e = \<lparr> course = get_or task ''course'' ''N/A'',
               name = get_or task ''name'' ''Unnamed Task'',
               due_date_str = s, due_date_obj = due,
               days_left = days_left e,
               task_type = get_or task ''type'' ''Task'' \<rparr>
         \<and> 0 \<le> days_left e \<and> days_left e \<le> T
         \<and> days_left e * DAY \<le> due - now \<and> due - now < (days_left e + 1) * DAY)"
proof -
  let ?d = "(due - now) div DAY"
  have w: "?d * DAY \<le> due - now" "due - now < (?d + 1) * DAY"
    using whole_days [of "due - now"] by simp_all
  have p: "0 < DAY" by (simp add: DAY_def)
  have nonneg: "0 \<le> ?d" if "now < due"
    using that p by (simp add: pos_imp_zdiv_nonneg_iff)
  have le: "?d \<le> T \<longleftrightarrow> due < now + (T + 1) * DAY"
  proof
    assume "?d \<le> T"
    then have "(?d + 1) * DAY \<le> (T + 1) * DAY" using p by simp
    then show "due < now + (T + 1) * DAY" using w(2) by linarith
  next
    assume a: "due < now + (T + 1) * DAY"
    show "?d \<le> T"
    proof (rule ccontr)
      assume "\<not> ?d \<le> T"
      then have "T + 1 \<le> ?d" by simp
      then have "(T + 1) * DAY \<le> ?d * DAY" using p by simp
      then show False using w(1) a by linarith
    qed
  qed
  have u: "upcoming_entry now T task s due =
     (if now < due \<and> due < now + (T + 1) * DAY
      then Some \<lparr> course = get_or task ''course'' ''N/A'',
               name = get_or task ''name'' ''Unnamed Task'',
               due_date_str = s, due_date_obj = due,
               days_left = ?d,
               task_type = get_or task ''type'' ''Task'' \<rparr>
      else None)"
    using nonneg le by (simp add: upcoming_entry_def datetime_sub_def days_def Let_def)
  show ?thesis
    unfolding u using w nonneg le by auto
qed

text \<open>
  So a task due strictly after \<open>now\<close>, at \<open>now\<close> plus \<open>threshold\<close> days and \<open>h\<close> hours with
  \<open>0 \<le> h < 24\<close>, gets an entry with \<open>days_left = threshold\<close> from the body of the loop, and
  that entry is in the list that the evaluator returns whenever no date text of the
  dataset makes \<open>parse_date\<close> raise.
\<close>

lemma threshold_day_included:
  assumes "0 \<le> h" and "h < 24" and "now < now + T * DAY + h * HOUR"
  shows "upcoming_entry now T task s (now + T * DAY + h * HOUR)
           = Some \<lparr> course = get_or task ''course'' ''N/A'',
                    name = get_or task ''name'' ''Unnamed Task'',
                    due_date_str = s,
                    due_date_obj = now + T * DAY + h * HOUR,
                    days_left = T,
                    task_type = get_or task ''type'' ''Task'' \<rparr>
         \<and> (\<forall>lim clock data j.
               j < length (all_tasks data) \<and> all_tasks data ! j = task
               \<and> close_date_of task = Some s
               \<and> parse_date lim (clock j) s = Inr (Some (now + T * DAY + h * HOUR))
               \<and> parses lim clock 0 (all_tasks data)
               \<longrightarrow> (\<exists>out. check_upcoming_deadlines lim now clock data T = Inr out
                     \<and> \<lparr> course = get_or task ''course'' ''N/A'',
                          name = get_or task ''name'' ''Unnamed Task'',
                          due_date_str = s,
                          due_date_obj = now + T * DAY + h * HOUR,
                          days_left = T,
                          task_type = get_or task ''type'' ''Task'' \<rparr> \<in> set out))"
proof (intro conjI allI impI)
  have d: "(now + T * DAY + h * HOUR - now) div DAY = T"
    using days_of_offset [OF assms(1,2), of T] by simp
  have "0 \<le> T"
  proof (rule ccontr)
    assume "\<not> 0 \<le> T"
    then have "T \<le> - 1" by simp
    then have "T * DAY \<le> - DAY" by (simp add: DAY_def)
    moreover have "h * HOUR < DAY" using assms(2) by (simp add: HOUR_def DAY_def)
    ultimately show False using assms(3) by simp
  qed
  then show "upcoming_entry now T task s (now + T * DAY + h * HOUR)
           = Some \<lparr> course = get_or task ''course'' ''N/A'',
                    name = get_or task ''name'' ''Unnamed Task'',
                    due_date_str = s,
                    due_date_obj = now + T * DAY + h * HOUR,
                    days_left = T,
                    task_type = get_or task ''type'' ''Task'' \<rparr>"
    using assms(3) d by (simp add: upcoming_entry_def datetime_sub_def days_def Let_def)
  fix lim clock data j
  assume a: "j < length (all_tasks data) \<and> all_tasks data ! j = task
               \<and> close_date_of task = Some s
               \<and> parse_date lim (clock j) s = Inr (Some (now + T * DAY + h * HOUR))
               \<and> parses lim clock 0 (all_tasks data)"
  then have run: "check_upcoming_deadlines lim now clock data T
           = Inr (sort_key due_date_obj (due_entries lim now clock T 0 (all_tasks data)))"
    by (simp add: check_upcoming_deadlines_run)
  have "\<lparr> course = get_or task ''course'' ''N/A'',
                          name = get_or task ''name'' ''Unnamed Task'',
                          due_date_str = s,
                          due_date_obj = now + T * DAY + h * HOUR,
                          days_left = T,
                          task_type = get_or task ''type'' ''Task'' \<rparr>
          \<in> set (due_entries lim now clock T 0 (all_tasks data))"
    unfolding due_entries_iff
    using a assms(3) d
    by (intro exI [of _ j] exI [of _ s] exI [of _ "now + T * DAY + h * HOUR"]) simp
  then show "\<exists>out. check_upcoming_deadlines lim now clock data T = Inr out
                     \<and> \<lparr> course = get_or task ''course'' ''N/A'',
                          name = get_or task ''name'' ''Unnamed Task'',
                          due_date_str = s,
                          due_date_obj = now + T * DAY + h * HOUR,
                          days_left = T,
                          task_type = get_or task ''type'' ''Task'' \<rparr> \<in> set out"
    by (simp add: run)
qed

lemma parse_threshold_day:
  "parse_date lim sample_now ''Will be closed after: 3 days 23 hours''
     = Inr (Some (sample_now + 3 * DAY + 23 * HOUR))"
  by (simp add: eval_defs)

lemma parse_one_day:
  "parse_date lim sample_now ''Will be closed after: 1 days 5 hours''
     = Inr (Some (sample_now + 1 * DAY + 5 * HOUR))"
  by (simp add: eval_defs)

lemma parse_four_days:
  "parse_date lim sample_now ''Will be closed after: 4 days 0 hours''
     = Inr (Some (sample_now + 4 * DAY + 0 * HOUR))"
  by (simp add: eval_defs)


text \<open>
  Three assignments due in 3 days 23 hours, in 1 day 5 hours and in 4 days, threshold 3:
  the first two come back, sorted by due date, with 1 and 3 days left; the third, 4 whole
  days away, is left out.
\<close>

lemma days_left_example:
  "check_upcoming_deadlines lim sample_now (steady_clock sample_now)
     (sample_data [sample_assignment ''Will be closed after: 3 days 23 hours'',
                   sample_assignment ''Will be closed after: 1 days 5 hours'',
                   sample_assignment ''Will be closed after: 4 days 0 hours''] []) 3
     = Inr [\<lparr> course = ''CS101'', name = ''Sheet 1'',
               due_date_str = ''Will be closed after: 1 days 5 hours'',
               due_date_obj = sample_now + 1 * DAY + 5 * HOUR, days_left = 1,
               task_type = ''Assignment'' \<rparr>,
            \<lparr> course = ''CS101'', name = ''Sheet 1'',
               due_date_str = ''Will be closed after: 3 days 23 hours'',
               due_date_obj = sample_now + 3 * DAY + 23 * HOUR, days_left = 3,
               task_type = ''Assignment'' \<rparr>]"
  using parse_threshold_day [of lim] parse_one_day [of lim] parse_four_days [of lim]
  by (simp add: check_upcoming_deadlines_def bind_def sample_defs upcoming_entry_def
      datetime_sub_def days_def DAY_def HOUR_def sort_key_def)

subsection \<open>The authenticator\<close>

lemma login_loop_retryable:
  assumes "\<forall>a. retryable (driver a)"
  shows "0 < n \<Longrightarrow> attempt + int n = max_retries \<Longrightarrow>
     login_loop driver max_retries attempt n
       = (Inl (Exception ''Maximum login attempts reached.''),
          concat (map (\<lambda>a. [Attempt a, Wait (3 + a * 2)]) [attempt .. max_retries - 2])
            @ [Attempt (max_retries - 1)])"
proof (induction n arbitrary: attempt)
  case 0
  then show ?case by simp
next
  case (Suc n)
  from assms have r: "retryable (driver attempt)" by simp
  show ?case
  proof (cases "n = 0")
    case True
    with Suc.prems have last: "attempt = max_retries - 1" by simp
    then have "[attempt .. max_retries - 2] = []" by simp
    then show ?thesis using r last
      by (auto simp: retryable_def Let_def split: attempt_result.splits sum.splits)
  next
    case False
    with Suc.prems have lt: "attempt < max_retries - 1" by simp
    have IH: "login_loop driver max_retries (attempt + 1) n
       = (Inl (Exception ''Maximum login attempts reached.''),
          concat (map (\<lambda>a. [Attempt a, Wait (3 + a * 2)]) [attempt + 1 .. max_retries - 2])
            @ [Attempt (max_retries - 1)])"
      using Suc.IH [of "attempt + 1"] False Suc.prems by simp
    have up: "[attempt .. max_retries - 2] = attempt # [attempt + 1 .. max_retries - 2]"
      using lt by (simp add: upto_rec1)
    show ?thesis using r lt
      by (auto simp: retryable_def Let_def IH up split: attempt_result.splits sum.splits)
  qed
qed

text \<open>
  With at least one attempt allowed and every attempt failing in a way that the loop
  retries, \<open>login\<close> makes exactly \<open>max_retries\<close> attempts, waits \<open>3 + 2 * attempt\<close>
  seconds between them, and raises "Maximum login attempts reached."
\<close>

lemma login_retries_exhausted:
  assumes "0 < max_retries" and "\<forall>a. retryable (driver a)"
  shows "login driver max_retries
       = (Inl (Exception ''Maximum login attempts reached.''),
          concat (map (\<lambda>a. [Attempt a, Wait (3 + a * 2)]) [0 .. max_retries - 2])
            @ [Attempt (max_retries - 1)])"
  unfolding login_def
  using login_loop_retryable [OF assms(2), of "nat max_retries" 0 max_retries] assms(1)
  by simp

text \<open>
  Bad credentials end the login at once when the attempt fails with an exception other
  than the two of the first handler.
\<close>

lemma login_invalid_credentials:
  assumes "0 < max_retries"
    and "driver 0 = Raised e (Inr p)"
    and "e \<noteq> TimeoutException" and "e \<noteq> NoSuchElementException"
    and "contains ''Login.aspx'' (current_url p)"
    and "contains ''Invalid username or password'' (page_source p)"
  shows "login driver max_retries
           = (Inl (Exception ''Invalid credentials provided.''), [Attempt 0])"
proof -
  from assms(1) obtain n where "nat max_retries = Suc n"
    by (cases "nat max_retries") auto
  then show ?thesis using assms by (simp add: login_def)
qed

lemma login_no_attempt: "max_retries \<le> 0 \<Longrightarrow> login driver max_retries = (Inr (), [])"
  by (simp add: login_def)

text \<open>
  C3. The claim is that \<open>login\<close> raises the invalid-credentials error at once, with no
  further attempt, whenever the page reports a bad user name or password. The check of the
  page is in the second handler only; a rejected login makes the wait for the profile URL
  time out, which the first handler catches. With the page showing
  "Invalid username or password" on every attempt, \<open>login\<close> makes all three attempts and
  raises "Maximum login attempts reached."
\<close>

theorem login_retries_on_rejection:
  "login times_out_on_rejection MAX_LOGIN_RETRIES
     = (Inl (Exception ''Maximum login attempts reached.''),
        [Attempt 0, Wait 3, Attempt 1, Wait 5, Attempt 2])
   \<and> contains ''Login.aspx'' (current_url rejected_page)
   \<and> contains ''Invalid username or password'' (page_source rejected_page)"
  by (simp add: login_def MAX_LOGIN_RETRIES_def times_out_on_rejection_def rejected_page_def
      eval_nat_numeral)

subsection \<open>The extractor: classification of quizzes\<close>

lemma partition_at_contains:
  "sep \<noteq> [] \<Longrightarrow> contains sep s \<Longrightarrow> \<exists>b a. partition_at sep s = Some (b, a)"
  by (induction s) (auto split: option.splits)

lemma split_second_contains:
  "sep \<noteq> [] \<Longrightarrow> contains sep s \<Longrightarrow> \<exists>t. split_second sep s = Inr t"
  using partition_at_contains [of sep s]
  by (auto simp: split_second_def split: option.splits)

lemma quiz_closed_at_returns: "\<exists>t. quiz_closed_at raw_status = Inr t"
  using split_second_contains [of "''Closed at:''" raw_status]
  by (auto simp: quiz_closed_at_def bind_def)

lemma assignment_closed_at_returns: "\<exists>t. assignment_closed_at raw_date = Inr t"
  using split_second_contains [of "''Closed at:''" raw_date]
  by (auto simp: assignment_closed_at_def bind_def)

lemma quiz_fields_read:
  assumes "quiz_name q = Inr n" "quiz_status q = Inr s" "quiz_graded_status q = Inr g"
    "quiz_attempts q = Inr a"
  shows "\<exists>d. quiz_fields c q = Inr d
           \<and> d ''grade'' = Some (if g \<noteq> [] \<and> g \<noteq> ''--'' then g else ''Not Graded'')"
proof -
  obtain t where "quiz_closed_at s = Inr t" using quiz_closed_at_returns by blast
  then show ?thesis using assms by (simp add: quiz_fields_def reading_def Let_def)
qed

text \<open>
  The dictionary at the moment a reading raises, by the reading that raises: the fields
  read before it, in the order of the \<open>try\<close> block.
\<close>

lemma quiz_fields_raise:
  assumes "quiz_closed_at s = Inr t"
  shows "quiz_name q = Inl e \<Longrightarrow>
      quiz_fields c q = Inl (e, [''course'' \<mapsto> c, ''type'' \<mapsto> ''Quiz''])"
    and "quiz_name q = Inr n \<Longrightarrow> quiz_status q = Inl e \<Longrightarrow>
      quiz_fields c q = Inl (e, [''course'' \<mapsto> c, ''type'' \<mapsto> ''Quiz'',
        ''name'' \<mapsto> (if n \<noteq> [] then n else ''Unnamed Quiz'')])"
    and "quiz_name q = Inr n \<Longrightarrow> quiz_status q = Inr s \<Longrightarrow> quiz_graded_status q = Inl e \<Longrightarrow>
      quiz_fields c q = Inl (e, [''course'' \<mapsto> c, ''type'' \<mapsto> ''Quiz'',
        ''name'' \<mapsto> (if n \<noteq> [] then n else ''Unnamed Quiz''), ''closed_at'' \<mapsto> t])"
    and "quiz_name q = Inr n \<Longrightarrow> quiz_status q = Inr s \<Longrightarrow> quiz_graded_status q = Inr g
        \<Longrightarrow> quiz_attempts q = Inl e \<Longrightarrow>
      quiz_fields c q = Inl (e, [''course'' \<mapsto> c, ''type'' \<mapsto> ''Quiz'',
        ''name'' \<mapsto> (if n \<noteq> [] then n else ''Unnamed Quiz''), ''closed_at'' \<mapsto> t,
        ''grade'' \<mapsto> (if g \<noteq> [] \<and> g \<noteq> ''--'' then g else ''Not Graded'')])"
  using assms by (simp_all add: quiz_fields_def reading_def Let_def)

text \<open>
  C7 (as amended). A quiz whose four texts are all read is filed with results if and only
  if its grade field is not "Not Graded" and contains "/"; the grade field is the text
  read, or "Not Graded" when that text is empty or "--". So 8/10 goes with results and
  "Not Graded", "--" and the empty text go without.

  A quiz whose reading raises is never filed with results. If the exception is that of a
  stale element, the quiz is skipped: both lists stay as they were. On any other exception
  the quiz is filed without results, whatever grade was read: one dictionary is appended
  to that list, with the fields read before the exception and the handler's defaults
  ("Error Processing Quiz" for the name, "Unknown" for the others) for the fields not yet
  read. The four cases are the four readings, in the order of the source: of the name, of
  the status, of the grade and of the attempts.
\<close>

theorem quiz_classification:
  "(quiz_name q = Inr n \<and> quiz_status q = Inr s \<and> quiz_graded_status q = Inr g
      \<and> quiz_attempts q = Inr a \<longrightarrow>
      (\<exists>d. quiz_fields c q = Inr d
         \<and> d ''grade'' = Some (if g \<noteq> [] \<and> g \<noteq> ''--'' then g else ''Not Graded'')
         \<and> (has_result d \<longleftrightarrow> g \<noteq> [] \<and> g \<noteq> ''--'' \<and> g \<noteq> ''Not Graded'' \<and> contains ''/'' g)
         \<and> extract_quiz c r q =
             (if has_result d
              then r\<lparr>quizzes_with_results := quizzes_with_results r @ [d]\<rparr>
              else r\<lparr>quizzes_without_results := quizzes_without_results r @ [d]\<rparr>)
         \<and> (g = ''8/10'' \<longrightarrow> has_result d)
         \<and> (g = ''Not Graded'' \<or> g = ''--'' \<or> g = [] \<longrightarrow>
              d ''grade'' = Some ''Not Graded'' \<and> \<not> has_result d)))
   \<and> (\<forall>e d. quiz_fields c q = Inl (e, d) \<longrightarrow>
         quizzes_with_results (extract_quiz c r q) = quizzes_with_results r)
   \<and> (quiz_name q = Inl StaleElementReferenceException
       \<or> quiz_name q = Inr n \<and> quiz_status q = Inl StaleElementReferenceException
       \<or> quiz_name q = Inr n \<and> quiz_status q = Inr s
          \<and> quiz_graded_status q = Inl StaleElementReferenceException
       \<or> quiz_name q = Inr n \<and> quiz_status q = Inr s \<and> quiz_graded_status q = Inr g
          \<and> quiz_attempts q = Inl StaleElementReferenceException
       \<longrightarrow> extract_quiz c r q = r)
   \<and> (e \<noteq> StaleElementReferenceException \<and> quiz_name q = Inl e \<longrightarrow>
        extract_quiz c r q = r\<lparr>quizzes_without_results := quizzes_without_results r @
          [[''course'' \<mapsto> c, ''type'' \<mapsto> ''Quiz'', ''name'' \<mapsto> ''Error Processing Quiz'',
            ''closed_at'' \<mapsto> ''Unknown'', ''grade'' \<mapsto> ''Unknown'',
            ''attempts'' \<mapsto> ''Unknown'']]\<rparr>)
   \<and> (e \<noteq> StaleElementReferenceException \<and> quiz_name q = Inr n \<and> quiz_status q = Inl e \<longrightarrow>
        extract_quiz c r q = r\<lparr>quizzes_without_results := quizzes_without_results r @
          [[''course'' \<mapsto> c, ''type'' \<mapsto> ''Quiz'',
            ''name'' \<mapsto> (if n \<noteq> [] then n else ''Unnamed Quiz''),
            ''closed_at'' \<mapsto> ''Unknown'', ''grade'' \<mapsto> ''Unknown'',
            ''attempts'' \<mapsto> ''Unknown'']]\<rparr>)
   \<and> (e \<noteq> StaleElementReferenceException \<and> quiz_name q = Inr n \<and> quiz_status q = Inr s
        \<and> quiz_graded_status q = Inl e \<longrightarrow>
        (\<exists>t. quiz_closed_at s = Inr t \<and>
          extract_quiz c r q = r\<lparr>quizzes_without_results := quizzes_without_results r @
            [[''course'' \<mapsto> c, ''type'' \<mapsto> ''Quiz'',
              ''name'' \<mapsto> (if n \<noteq> [] then n else ''Unnamed Quiz''),
              ''closed_at'' \<mapsto> t, ''grade'' \<mapsto> ''Unknown'',
              ''attempts'' \<mapsto> ''Unknown'']]\<rparr>))
   \<and> (e \<noteq> StaleElementReferenceException \<and> quiz_name q = Inr n \<and> quiz_status q = Inr s
        \<and> quiz_graded_status q = Inr g \<and> quiz_attempts q = Inl e \<longrightarrow>
        (\<exists>t. quiz_closed_at s = Inr t \<and>
          extract_quiz c r q = r\<lparr>quizzes_without_results := quizzes_without_results r @
            [[''course'' \<mapsto> c, ''type'' \<mapsto> ''Quiz'',
              ''name'' \<mapsto> (if n \<noteq> [] then n else ''Unnamed Quiz''),
              ''closed_at'' \<mapsto> t,
              ''grade'' \<mapsto> (if g \<noteq> [] \<and> g \<noteq> ''--'' then g else ''Not Graded''),
              ''attempts'' \<mapsto> ''Unknown'']]\<rparr>))"
proof -
  have read: "quiz_name q = Inr n \<and> quiz_status q = Inr s \<and> quiz_graded_status q = Inr g
      \<and> quiz_attempts q = Inr a \<longrightarrow>
      (\<exists>d. quiz_fields c q = Inr d
         \<and> d ''grade'' = Some (if g \<noteq> [] \<and> g \<noteq> ''--'' then g else ''Not Graded'')
         \<and> (has_result d \<longleftrightarrow> g \<noteq> [] \<and> g \<noteq> ''--'' \<and> g \<noteq> ''Not Graded'' \<and> contains ''/'' g)
         \<and> extract_quiz c r q =
             (if has_result d
              then r\<lparr>quizzes_with_results := quizzes_with_results r @ [d]\<rparr>
              else r\<lparr>quizzes_without_results := quizzes_without_results r @ [d]\<rparr>)
         \<and> (g = ''8/10'' \<longrightarrow> has_result d)
         \<and> (g = ''Not Graded'' \<or> g = ''--'' \<or> g = [] \<longrightarrow>
              d ''grade'' = Some ''Not Graded'' \<and> \<not> has_result d))"
  proof
    assume a: "quiz_name q = Inr n \<and> quiz_status q = Inr s \<and> quiz_graded_status q = Inr g
      \<and> quiz_attempts q = Inr a"
    then obtain d where d: "quiz_fields c q = Inr d"
      and g: "d ''grade'' = Some (if g \<noteq> [] \<and> g \<noteq> ''--'' then g else ''Not Graded'')"
      using quiz_fields_read [of q n s g a c] by blast
    have h: "has_result d \<longleftrightarrow> g \<noteq> [] \<and> g \<noteq> ''--'' \<and> g \<noteq> ''Not Graded'' \<and> contains ''/'' g"
      using g by (auto simp: has_result_def)
    have e: "extract_quiz c r q =
             (if has_result d
              then r\<lparr>quizzes_with_results := quizzes_with_results r @ [d]\<rparr>
              else r\<lparr>quizzes_without_results := quizzes_without_results r @ [d]\<rparr>)"
      using d by (simp add: extract_quiz_def)
    have x1: "g = ''8/10'' \<longrightarrow> has_result d"
      unfolding h by simp
    have x2: "g = ''Not Graded'' \<or> g = ''--'' \<or> g = [] \<longrightarrow>
              d ''grade'' = Some ''Not Graded'' \<and> \<not> has_result d"
      using g h by auto
    show "\<exists>d. quiz_fields c q = Inr d
         \<and> d ''grade'' = Some (if g \<noteq> [] \<and> g \<noteq> ''--'' then g else ''Not Graded'')
         \<and> (has_result d \<longleftrightarrow> g \<noteq> [] \<and> g \<noteq> ''--'' \<and> g \<noteq> ''Not Graded'' \<and> contains ''/'' g)
         \<and> extract_quiz c r q =
             (if has_result d
              then r\<lparr>quizzes_with_results := quizzes_with_results r @ [d]\<rparr>
              else r\<lparr>quizzes_without_results := quizzes_without_results r @ [d]\<rparr>)
         \<and> (g = ''8/10'' \<longrightarrow> has_result d)
         \<and> (g = ''Not Graded'' \<or> g = ''--'' \<or> g = [] \<longrightarrow>
              d ''grade'' = Some ''Not Graded'' \<and> \<not> has_result d)"
      using d g h e x1 x2 by blast
  qed
  have raised: "\<forall>e d. quiz_fields c q = Inl (e, d) \<longrightarrow>
         quizzes_with_results (extract_quiz c r q) = quizzes_with_results r"
    by (simp add: extract_quiz_def)
  obtain t where t: "quiz_closed_at s = Inr t" using quiz_closed_at_returns by blast
  note f = quiz_fields_raise [OF t]
  have stale: "quiz_name q = Inl StaleElementReferenceException
       \<or> quiz_name q = Inr n \<and> quiz_status q = Inl StaleElementReferenceException
       \<or> quiz_name q = Inr n \<and> quiz_status q = Inr s
          \<and> quiz_graded_status q = Inl StaleElementReferenceException
       \<or> quiz_name q = Inr n \<and> quiz_status q = Inr s \<and> quiz_graded_status q = Inr g
          \<and> quiz_attempts q = Inl StaleElementReferenceException
       \<longrightarrow> extract_quiz c r q = r"
  proof
    assume "quiz_name q = Inl StaleElementReferenceException
       \<or> quiz_name q = Inr n \<and> quiz_status q = Inl StaleElementReferenceException
       \<or> quiz_name q = Inr n \<and> quiz_status q = Inr s
          \<and> quiz_graded_status q = Inl StaleElementReferenceException
       \<or> quiz_name q = Inr n \<and> quiz_status q = Inr s \<and> quiz_graded_status q = Inr g
          \<and> quiz_attempts q = Inl StaleElementReferenceException"
    then have "\<exists>d. quiz_fields c q = Inl (StaleElementReferenceException, d)"
      using f [where q = q and c = c and e = StaleElementReferenceException] by blast
    then show "extract_quiz c r q = r" by (auto simp: extract_quiz_def)
  qed
  have r1: "e \<noteq> StaleElementReferenceException \<and> quiz_name q = Inl e \<longrightarrow>
        extract_quiz c r q = r\<lparr>quizzes_without_results := quizzes_without_results r @
          [[''course'' \<mapsto> c, ''type'' \<mapsto> ''Quiz'', ''name'' \<mapsto> ''Error Processing Quiz'',
            ''closed_at'' \<mapsto> ''Unknown'', ''grade'' \<mapsto> ''Unknown'',
            ''attempts'' \<mapsto> ''Unknown'']]\<rparr>"
  proof
    assume a: "e \<noteq> StaleElementReferenceException \<and> quiz_name q = Inl e"
    then show "extract_quiz c r q = r\<lparr>quizzes_without_results := quizzes_without_results r @
          [[''course'' \<mapsto> c, ''type'' \<mapsto> ''Quiz'', ''name'' \<mapsto> ''Error Processing Quiz'',
            ''closed_at'' \<mapsto> ''Unknown'', ''grade'' \<mapsto> ''Unknown'',
            ''attempts'' \<mapsto> ''Unknown'']]\<rparr>"
      using f(1) [where q = q and c = c and e = e] by (simp add: extract_quiz_def setdefault_def)
  qed
  have r2: "e \<noteq> StaleElementReferenceException \<and> quiz_name q = Inr n \<and> quiz_status q = Inl e \<longrightarrow>
        extract_quiz c r q = r\<lparr>quizzes_without_results := quizzes_without_results r @
          [[''course'' \<mapsto> c, ''type'' \<mapsto> ''Quiz'',
            ''name'' \<mapsto> (if n \<noteq> [] then n else ''Unnamed Quiz''),
            ''closed_at'' \<mapsto> ''Unknown'', ''grade'' \<mapsto> ''Unknown'',
            ''attempts'' \<mapsto> ''Unknown'']]\<rparr>"
  proof
    assume a: "e \<noteq> StaleElementReferenceException \<and> quiz_name q = Inr n \<and> quiz_status q = Inl e"
    then show "extract_quiz c r q = r\<lparr>quizzes_without_results := quizzes_without_results r @
          [[''course'' \<mapsto> c, ''type'' \<mapsto> ''Quiz'',
            ''name'' \<mapsto> (if n \<noteq> [] then n else ''Unnamed Quiz''),
            ''closed_at'' \<mapsto> ''Unknown'', ''grade'' \<mapsto> ''Unknown'',
            ''attempts'' \<mapsto> ''Unknown'']]\<rparr>"
      using f(2) [where q = q and c = c and e = e] by (simp add: extract_quiz_def setdefault_def)
  qed
  have r3: "e \<noteq> StaleElementReferenceException \<and> quiz_name q = Inr n \<and> quiz_status q = Inr s
        \<and> quiz_graded_status q = Inl e \<longrightarrow>
        (\<exists>t. quiz_closed_at s = Inr t \<and>
          extract_quiz c r q = r\<lparr>quizzes_without_results := quizzes_without_results r @
            [[''course'' \<mapsto> c, ''type'' \<mapsto> ''Quiz'',
              ''name'' \<mapsto> (if n \<noteq> [] then n else ''Unnamed Quiz''),
              ''closed_at'' \<mapsto> t, ''grade'' \<mapsto> ''Unknown'',
              ''attempts'' \<mapsto> ''Unknown'']]\<rparr>)"
  proof
    assume a: "e \<noteq> StaleElementReferenceException \<and> quiz_name q = Inr n \<and> quiz_status q = Inr s
        \<and> quiz_graded_status q = Inl e"
    then have "extract_quiz c r q = r\<lparr>quizzes_without_results := quizzes_without_results r @
            [[''course'' \<mapsto> c, ''type'' \<mapsto> ''Quiz'',
              ''name'' \<mapsto> (if n \<noteq> [] then n else ''Unnamed Quiz''),
              ''closed_at'' \<mapsto> t, ''grade'' \<mapsto> ''Unknown'',
              ''attempts'' \<mapsto> ''Unknown'']]\<rparr>"
      using f(3) [where q = q and c = c and e = e] by (simp add: extract_quiz_def setdefault_def)
    then show "\<exists>t. quiz_closed_at s = Inr t \<and>
          extract_quiz c r q = r\<lparr>quizzes_without_results := quizzes_without_results r @
            [[''course'' \<mapsto> c, ''type'' \<mapsto> ''Quiz'',
              ''name'' \<mapsto> (if n \<noteq> [] then n else ''Unnamed Quiz''),
              ''closed_at'' \<mapsto> t, ''grade'' \<mapsto> ''Unknown'',
              ''attempts'' \<mapsto> ''Unknown'']]\<rparr>"
      using t by blast
  qed
  have r4: "e \<noteq> StaleElementReferenceException \<and> quiz_name q = Inr n \<and> quiz_status q = Inr s
        \<and> quiz_graded_status q = Inr g \<and> quiz_attempts q = Inl e \<longrightarrow>
        (\<exists>t. quiz_closed_at s = Inr t \<and>
          extract_quiz c r q = r\<lparr>quizzes_without_results := quizzes_without_results r @
            [[''course'' \<mapsto> c, ''type'' \<mapsto> ''Quiz'',
              ''name'' \<mapsto> (if n \<noteq> [] then n else ''Unnamed Quiz''),
              ''closed_at'' \<mapsto> t,
              ''grade'' \<mapsto> (if g \<noteq> [] \<and> g \<noteq> ''--'' then g else ''Not Graded''),
              ''attempts'' \<mapsto> ''Unknown'']]\<rparr>)"
  proof
    assume a: "e \<noteq> StaleElementReferenceException \<and> quiz_name q = Inr n \<and> quiz_status q = Inr s
        \<and> quiz_graded_status q = Inr g \<and> quiz_attempts q = Inl e"
    then have "extract_quiz c r q = r\<lparr>quizzes_without_results := quizzes_without_results r @
            [[''course'' \<mapsto> c, ''type'' \<mapsto> ''Quiz'',
              ''name'' \<mapsto> (if n \<noteq> [] then n else ''Unnamed Quiz''),
              ''closed_at'' \<mapsto> t,
              ''grade'' \<mapsto> (if g \<noteq> [] \<and> g \<noteq> ''--'' then g else ''Not Graded''),
              ''attempts'' \<mapsto> ''Unknown'']]\<rparr>"
      using f(4) [where q = q and c = c and e = e] by (simp add: extract_quiz_def setdefault_def)
    then show "\<exists>t. quiz_closed_at s = Inr t \<and>
          extract_quiz c r q = r\<lparr>quizzes_without_results := quizzes_without_results r @
            [[''course'' \<mapsto> c, ''type'' \<mapsto> ''Quiz'',
              ''name'' \<mapsto> (if n \<noteq> [] then n else ''Unnamed Quiz''),
              ''closed_at'' \<mapsto> t,
              ''grade'' \<mapsto> (if g \<noteq> [] \<and> g \<noteq> ''--'' then g else ''Not Graded''),
              ''attempts'' \<mapsto> ''Unknown'']]\<rparr>"
      using t by blast
  qed
  show ?thesis
    by (intro conjI read raised stale r1 r2 r3 r4)
qed

lemmas quiz_sample_defs = half_read_quiz_def quiz_fields_def reading_def quiz_closed_at_def
  extract_quiz_def has_result_def setdefault_def empty_quiz_results_def bind_def
  split_second_def strip_def is_space_def code_def

text \<open>
  Four quizzes of the course Algorithms, all with the status "Closed at: Dec 5, 2024 at
  11:59 PM" and the grade 8/10: one whose four texts are read, filed with results; one
  whose reading of the attempts raises, filed without results with its grade 8/10; one
  whose reading of the grade raises, filed without results with the grade "Unknown"; one
  whose reading of the attempts finds the element stale, filed nowhere.
\<close>

theorem quiz_classification_witness:
  "quiz_name (half_read_quiz\<lparr>quiz_attempts := Inr (Some ''1'')\<rparr>) = Inr ''Quiz 1''
   \<and> quiz_status (half_read_quiz\<lparr>quiz_attempts := Inr (Some ''1'')\<rparr>)
       = Inr ''Closed at: Dec 5, 2024 at 11:59 PM''
   \<and> quiz_graded_status (half_read_quiz\<lparr>quiz_attempts := Inr (Some ''1'')\<rparr>) = Inr ''8/10''
   \<and> quiz_attempts (half_read_quiz\<lparr>quiz_attempts := Inr (Some ''1'')\<rparr>) = Inr (Some ''1'')
   \<and> extract_quiz ''Algorithms'' empty_quiz_results
        (half_read_quiz\<lparr>quiz_attempts := Inr (Some ''1'')\<rparr>)
      = empty_quiz_results\<lparr>quizzes_with_results :=
         [[''course'' \<mapsto> ''Algorithms'', ''type'' \<mapsto> ''Quiz'', ''name'' \<mapsto> ''Quiz 1'',
           ''closed_at'' \<mapsto> ''Dec 5, 2024 at 11:59 PM'', ''grade'' \<mapsto> ''8/10'',
           ''attempts'' \<mapsto> ''1'']]\<rparr>
   \<and> quiz_attempts half_read_quiz = Inl (Exception ''Message: unknown error'')
   \<and> Exception ''Message: unknown error'' \<noteq> StaleElementReferenceException
   \<and> extract_quiz ''Algorithms'' empty_quiz_results half_read_quiz
      = empty_quiz_results\<lparr>quizzes_without_results :=
         [[''course'' \<mapsto> ''Algorithms'', ''type'' \<mapsto> ''Quiz'', ''name'' \<mapsto> ''Quiz 1'',
           ''closed_at'' \<mapsto> ''Dec 5, 2024 at 11:59 PM'', ''grade'' \<mapsto> ''8/10'',
           ''attempts'' \<mapsto> ''Unknown'']]\<rparr>
   \<and> quiz_graded_status (half_read_quiz\<lparr>quiz_graded_status := Inl TimeoutException\<rparr>)
       = Inl TimeoutException
   \<and> extract_quiz ''Algorithms'' empty_quiz_results
        (half_read_quiz\<lparr>quiz_graded_status := Inl TimeoutException\<rparr>)
      = empty_quiz_results\<lparr>quizzes_without_results :=
         [[''course'' \<mapsto> ''Algorithms'', ''type'' \<mapsto> ''Quiz'', ''name'' \<mapsto> ''Quiz 1'',
           ''closed_at'' \<mapsto> ''Dec 5, 2024 at 11:59 PM'', ''grade'' \<mapsto> ''Unknown'',
           ''attempts'' \<mapsto> ''Unknown'']]\<rparr>
   \<and> quiz_attempts (half_read_quiz\<lparr>quiz_attempts := Inl StaleElementReferenceException\<rparr>)
       = Inl StaleElementReferenceException
   \<and> extract_quiz ''Algorithms'' empty_quiz_results
        (half_read_quiz\<lparr>quiz_attempts := Inl StaleElementReferenceException\<rparr>)
      = empty_quiz_results"
  using
    quiz_classification [where q = "half_read_quiz\<lparr>quiz_attempts := Inr (Some ''1'')\<rparr>"
      and n = "''Quiz 1''" and s = "''Closed at: Dec 5, 2024 at 11:59 PM''" and g = "''8/10''"
      and a = "Some ''1''" and c = "''Algorithms''" and r = empty_quiz_results]
    quiz_classification [where q = half_read_quiz
      and n = "''Quiz 1''" and s = "''Closed at: Dec 5, 2024 at 11:59 PM''" and g = "''8/10''"
      and e = "Exception ''Message: unknown error''"
      and c = "''Algorithms''" and r = empty_quiz_results]
    quiz_classification [where q = "half_read_quiz\<lparr>quiz_graded_status := Inl TimeoutException\<rparr>"
      and n = "''Quiz 1''" and s = "''Closed at: Dec 5, 2024 at 11:59 PM''"
      and e = TimeoutException
      and c = "''Algorithms''" and r = empty_quiz_results]
    quiz_classification [where q = "half_read_quiz\<lparr>quiz_attempts := Inl StaleElementReferenceException\<rparr>"
      and n = "''Quiz 1''" and s = "''Closed at: Dec 5, 2024 at 11:59 PM''" and g = "''8/10''"
      and c = "''Algorithms''" and r = empty_quiz_results]
  by (simp add: quiz_sample_defs)

text \<open>
  The claim as stated fails for a quiz whose reading raises after the grade: the grade
  8/10 is read, the reading of the attempts raises, and the handler files the quiz
  without results.
\<close>

theorem quiz_classification_counterexample:
  "quizzes_with_results (extract_quiz ''Algorithms'' empty_quiz_results half_read_quiz) = []
   \<and> length (quizzes_without_results
        (extract_quiz ''Algorithms'' empty_quiz_results half_read_quiz)) = 1
   \<and> hd (quizzes_without_results
        (extract_quiz ''Algorithms'' empty_quiz_results half_read_quiz)) ''grade''
       = Some ''8/10''
   \<and> ''8/10'' \<noteq> ''Not Graded'' \<and> contains ''/'' ''8/10''"
  by (simp add: quiz_sample_defs)

subsection \<open>The extractor: diagnostics of a run\<close>

lemma extract_quiz_counters:
  "quiz_courses_found_on_page (extract_quiz c r q) = quiz_courses_found_on_page r
   \<and> quiz_courses_processed (extract_quiz c r q) = quiz_courses_processed r
   \<and> quiz_courses_failed_expansion (extract_quiz c r q) = quiz_courses_failed_expansion r"
  by (simp add: extract_quiz_def split: sum.splits prod.splits)

lemma foldl_extract_quiz_counters:
  "quiz_courses_found_on_page (foldl (extract_quiz c) r qs) = quiz_courses_found_on_page r
   \<and> quiz_courses_processed (foldl (extract_quiz c) r qs) = quiz_courses_processed r
   \<and> quiz_courses_failed_expansion (foldl (extract_quiz c) r qs)
       = quiz_courses_failed_expansion r"
  by (induction qs arbitrary: r) (simp_all add: extract_quiz_counters)

lemma course_name_of_undisturbed:
  "undisturbed section \<Longrightarrow> course_name_of i section = Inr (recorded_name (i, section))"
  by (auto simp: undisturbed_def course_name_of_def recorded_name_def split: sum.splits)

lemma quiz_course_undisturbed:
  assumes "undisturbed section"
  shows "quiz_courses_found_on_page (quiz_course i section r)
           = quiz_courses_found_on_page r @ [recorded_name (i, section)]"
    and "quiz_courses_processed (quiz_course i section r)
           = quiz_courses_processed r + (if panel_expands section then 1 else 0)"
    and "quiz_courses_failed_expansion (quiz_course i section r)
           = quiz_courses_failed_expansion r
               @ (if panel_expands section then [] else [recorded_name (i, section)])"
  using assms course_name_of_undisturbed [OF assms, of i]
  by (auto simp: quiz_course_def undisturbed_def Let_def quiz_course_failed_def
      foldl_extract_quiz_counters split: sum.splits)

lemma quiz_courses_undisturbed:
  "list_all undisturbed sections \<Longrightarrow>
     quiz_courses_found_on_page (quiz_courses i sections r)
       = quiz_courses_found_on_page r
           @ map recorded_name (enumerate i sections)
     \<and> quiz_courses_processed (quiz_courses i sections r)
       = quiz_courses_processed r + length (filter panel_expands sections)
     \<and> quiz_courses_failed_expansion (quiz_courses i sections r)
       = quiz_courses_failed_expansion r
           @ map recorded_name (filter (\<lambda>p. \<not> panel_expands (snd p))
                                  (enumerate i sections))"
proof (induction sections arbitrary: i r)
  case Nil
  show ?case by simp
next
  case (Cons sec rest)
  then have u: "undisturbed sec" and rest: "list_all undisturbed rest" by simp_all
  show ?case
    using Cons.IH [OF rest, of "Suc i" "quiz_course i sec r"]
    by (simp add: quiz_course_undisturbed [OF u])
qed

lemma extract_assignment_counters:
  "assignment_courses_found_on_page (extract_assignment c r q)
     = assignment_courses_found_on_page r
   \<and> assignment_courses_processed (extract_assignment c r q) = assignment_courses_processed r
   \<and> assignment_courses_failed_expansion (extract_assignment c r q)
       = assignment_courses_failed_expansion r"
  by (simp add: extract_assignment_def split: sum.splits prod.splits)

lemma foldl_extract_assignment_counters:
  "assignment_courses_found_on_page (foldl (extract_assignment c) r qs)
     = assignment_courses_found_on_page r
   \<and> assignment_courses_processed (foldl (extract_assignment c) r qs)
       = assignment_courses_processed r
   \<and> assignment_courses_failed_expansion (foldl (extract_assignment c) r qs)
       = assignment_courses_failed_expansion r"
  by (induction qs arbitrary: r) (simp_all add: extract_assignment_counters)

lemma assignment_course_undisturbed:
  assumes "undisturbed section"
  shows "assignment_courses_found_on_page (assignment_course i section r)
           = assignment_courses_found_on_page r @ [recorded_name (i, section)]"
    and "assignment_courses_processed (assignment_course i section r)
           = assignment_courses_processed r + (if panel_expands section then 1 else 0)"
    and "assignment_courses_failed_expansion (assignment_course i section r)
           = assignment_courses_failed_expansion r
               @ (if panel_expands section then [] else [recorded_name (i, section)])"
  using assms course_name_of_undisturbed [OF assms, of i]
  by (auto simp: assignment_course_def undisturbed_def Let_def assignment_course_failed_def
      foldl_extract_assignment_counters split: sum.splits)

lemma assignment_courses_undisturbed:
  "list_all undisturbed sections \<Longrightarrow>
     assignment_courses_found_on_page (assignment_courses i sections r)
       = assignment_courses_found_on_page r
           @ map recorded_name (enumerate i sections)
     \<and> assignment_courses_processed (assignment_courses i sections r)
       = assignment_courses_processed r + length (filter panel_expands sections)
     \<and> assignment_courses_failed_expansion (assignment_courses i sections r)
       = assignment_courses_failed_expansion r
           @ map recorded_name (filter (\<lambda>p. \<not> panel_expands (snd p))
                                  (enumerate i sections))"
proof (induction sections arbitrary: i r)
  case Nil
  show ?case by simp
next
  case (Cons sec rest)
  then have u: "undisturbed sec" and rest: "list_all undisturbed rest" by simp_all
  show ?case
    using Cons.IH [OF rest, of "Suc i" "assignment_course i sec r"]
    by (simp add: assignment_course_undisturbed [OF u])
qed

lemma length_filter_enumerate:
  "length (filter (\<lambda>p. P (snd p)) (enumerate i xs)) = length (filter P xs)"
  by (induction xs arbitrary: i) auto

lemma length_filter_split:
  "length (filter P xs) + length (filter (\<lambda>x. \<not> P x) xs) = length xs"
  by (induction xs) auto

lemma scrape_quizzes_undisturbed:
  assumes "list_all undisturbed sections"
  shows "\<exists>r. scrape_quizzes (Inr sections) = Inr r
     \<and> quiz_courses_processed r
         = length sections - length (filter (\<lambda>s. \<not> panel_expands s) sections)
     \<and> quiz_courses_failed_expansion r
         = map recorded_name (filter (\<lambda>p. \<not> panel_expands (snd p)) (enumerate 0 sections))
     \<and> length (quiz_courses_failed_expansion r)
         = length (filter (\<lambda>s. \<not> panel_expands s) sections)
     \<and> quiz_courses_found_on_page r = map recorded_name (enumerate 0 sections)
     \<and> quiz_courses_processed r + length (quiz_courses_failed_expansion r)
         \<le> length (quiz_courses_found_on_page r)"
proof -
  let ?r = "quiz_courses 0 sections empty_quiz_results"
  have run: "scrape_quizzes (Inr sections) = Inr ?r"
    by (cases sections) (simp_all add: scrape_quizzes_def)
  note c = quiz_courses_undisturbed [OF assms, of 0 empty_quiz_results]
  have e: "quiz_courses_processed empty_quiz_results = 0"
    "quiz_courses_found_on_page empty_quiz_results = []"
    "quiz_courses_failed_expansion empty_quiz_results = []"
    by (simp_all add: empty_quiz_results_def)
  have p: "quiz_courses_processed ?r = length (filter panel_expands sections)"
    using c e by simp
  have f: "quiz_courses_failed_expansion ?r
         = map recorded_name (filter (\<lambda>p. \<not> panel_expands (snd p)) (enumerate 0 sections))"
    using c e by simp
  have n: "quiz_courses_found_on_page ?r = map recorded_name (enumerate 0 sections)"
    using c e by simp
  have lf: "length (quiz_courses_failed_expansion ?r)
         = length (filter (\<lambda>s. \<not> panel_expands s) sections)"
    unfolding f using length_filter_enumerate [of "\<lambda>s. \<not> panel_expands s" 0 sections] by simp
  have k: "length (filter panel_expands sections)
            + length (filter (\<lambda>s. \<not> panel_expands s) sections) = length sections"
    by (rule length_filter_split)
  have "quiz_courses_processed ?r
         = length sections - length (filter (\<lambda>s. \<not> panel_expands s) sections)"
    using p k by simp
  moreover have "quiz_courses_processed ?r + length (quiz_courses_failed_expansion ?r)
         \<le> length (quiz_courses_found_on_page ?r)"
    using p lf k by (simp add: n)
  ultimately show ?thesis using run f lf n by blast
qed

lemma scrape_assignments_undisturbed:
  assumes "list_all undisturbed sections"
  shows "\<exists>r. scrape_assignments (Inr sections) = Inr r
     \<and> assignment_courses_processed r
         = length sections - length (filter (\<lambda>s. \<not> panel_expands s) sections)
     \<and> assignment_courses_failed_expansion r
         = map recorded_name (filter (\<lambda>p. \<not> panel_expands (snd p)) (enumerate 0 sections))
     \<and> length (assignment_courses_failed_expansion r)
         = length (filter (\<lambda>s. \<not> panel_expands s) sections)
     \<and> assignment_courses_found_on_page r = map recorded_name (enumerate 0 sections)
     \<and> assignment_courses_processed r + length (assignment_courses_failed_expansion r)
         \<le> length (assignment_courses_found_on_page r)"
proof -
  let ?r = "assignment_courses 0 sections empty_assignment_results"
  have run: "scrape_assignments (Inr sections) = Inr ?r"
    by (cases sections) (simp_all add: scrape_assignments_def)
  note c = assignment_courses_undisturbed [OF assms, of 0 empty_assignment_results]
  have e: "assignment_courses_processed empty_assignment_results = 0"
    "assignment_courses_found_on_page empty_assignment_results = []"
    "assignment_courses_failed_expansion empty_assignment_results = []"
    by (simp_all add: empty_assignment_results_def)
  have p: "assignment_courses_processed ?r = length (filter panel_expands sections)"
    using c e by simp
  have f: "assignment_courses_failed_expansion ?r
         = map recorded_name (filter (\<lambda>p. \<not> panel_expands (snd p)) (enumerate 0 sections))"
    using c e by simp
  have n: "assignment_courses_found_on_page ?r = map recorded_name (enumerate 0 sections)"
    using c e by simp
  have lf: "length (assignment_courses_failed_expansion ?r)
         = length (filter (\<lambda>s. \<not> panel_expands s) sections)"
    unfolding f using length_filter_enumerate [of "\<lambda>s. \<not> panel_expands s" 0 sections] by simp
  have k: "length (filter panel_expands sections)
            + length (filter (\<lambda>s. \<not> panel_expands s) sections) = length sections"
    by (rule length_filter_split)
  have "assignment_courses_processed ?r
         = length sections - length (filter (\<lambda>s. \<not> panel_expands s) sections)"
    using p k by simp
  moreover have "assignment_courses_processed ?r
         + length (assignment_courses_failed_expansion ?r)
         \<le> length (assignment_courses_found_on_page ?r)"
    using p lf k by (simp add: n)
  ultimately show ?thesis using run f lf n by blast
qed

text \<open>
  C2 (as amended). For an extraction run over K course sections of which F fail expansion,
  in which no section raises before it is recorded as found, and none raises anything but
  a time-out or a stale element after it is counted as processed: \<open>courses_processed\<close>
  is K - F, the failed-expansion list holds the names of the F failing sections, one entry
  for each in the order of the page, all K sections are recorded as found, and
  \<open>courses_processed\<close> plus the length of the failed-expansion list is at most the number
  of courses found. This holds for the quizzes and for the assignments.
\<close>

theorem extraction_diagnostics:
  "(list_all undisturbed quiz_sections \<longrightarrow>
     (\<exists>r. scrape_quizzes (Inr quiz_sections) = Inr r
        \<and> quiz_courses_processed r
            = length quiz_sections
                - length (filter (\<lambda>s. \<not> panel_expands s) quiz_sections)
        \<and> quiz_courses_failed_expansion r
            = map recorded_name
                (filter (\<lambda>p. \<not> panel_expands (snd p)) (enumerate 0 quiz_sections))
        \<and> length (quiz_courses_failed_expansion r)
            = length (filter (\<lambda>s. \<not> panel_expands s) quiz_sections)
        \<and> quiz_courses_found_on_page r = map recorded_name (enumerate 0 quiz_sections)
        \<and> quiz_courses_processed r + length (quiz_courses_failed_expansion r)
            \<le> length (quiz_courses_found_on_page r)))
   \<and> (list_all undisturbed assignment_sections \<longrightarrow>
     (\<exists>r. scrape_assignments (Inr assignment_sections) = Inr r
        \<and> assignment_courses_processed r
            = length assignment_sections
                - length (filter (\<lambda>s. \<not> panel_expands s) assignment_sections)
        \<and> assignment_courses_failed_expansion r
            = map recorded_name
                (filter (\<lambda>p. \<not> panel_expands (snd p)) (enumerate 0 assignment_sections))
        \<and> length (assignment_courses_failed_expansion r)
            = length (filter (\<lambda>s. \<not> panel_expands s) assignment_sections)
        \<and> assignment_courses_found_on_page r
            = map recorded_name (enumerate 0 assignment_sections)
        \<and> assignment_courses_processed r + length (assignment_courses_failed_expansion r)
            \<le> length (assignment_courses_found_on_page r)))"
  using scrape_quizzes_undisturbed [of quiz_sections]
    scrape_assignments_undisturbed [of assignment_sections]
  by blast

lemmas section_sample_defs = quiet_section_def stale_after_count_def failing_after_count_def
  undisturbed_def recorded_name_def course_name_of_def scrape_quizzes_def
  scrape_assignments_def quiz_course_def assignment_course_def quiz_course_failed_def
  assignment_course_failed_def empty_quiz_results_def empty_assignment_results_def

theorem extraction_diagnostics_witness:
  "list_all undisturbed
     [quiet_section ''Algebra'' True, quiet_section ''Logic'' False, stale_after_count]
   \<and> scrape_quizzes
       (Inr [quiet_section ''Algebra'' True, quiet_section ''Logic'' False, stale_after_count])
     = Inr \<lparr> quizzes_with_results = [], quizzes_without_results = [],
             quiz_courses_processed = 2, total_quizzes_found = 0,
             quiz_courses_found_on_page = [''Algebra'', ''Logic'', ''Networks''],
             quiz_courses_with_no_items = [''Algebra''],
             quiz_courses_failed_expansion = [''Logic''] \<rparr>
   \<and> scrape_assignments
       (Inr [quiet_section ''Algebra'' True, quiet_section ''Logic'' False, stale_after_count])
     = Inr \<lparr> assignments_list = [], assignment_courses_processed = 2,
             total_assignments_found = 0,
             assignment_courses_found_on_page = [''Algebra'', ''Logic'', ''Networks''],
             assignment_courses_with_no_items = [''Algebra''],
             assignment_courses_failed_expansion = [''Logic''] \<rparr>"
  using extraction_diagnostics
    [of "[quiet_section ''Algebra'' True, quiet_section ''Logic'' False, stale_after_count]"
        "[quiet_section ''Algebra'' True, quiet_section ''Logic'' False, stale_after_count]"]
  by (simp add: section_sample_defs)

text \<open>
  The claim as stated fails when the wait for the items of an expanded section raises an
  exception other than a time-out or a stale element: the section is counted as processed
  and the handler also lists it as failed expansion, so that one course found carries a
  count of one processed and one failed.
\<close>

theorem extraction_diagnostics_counterexample:
  "scrape_quizzes (Inr [failing_after_count])
     = Inr \<lparr> quizzes_with_results = [], quizzes_without_results = [],
             quiz_courses_processed = 1, total_quizzes_found = 0,
             quiz_courses_found_on_page = [''Algorithms''],
             quiz_courses_with_no_items = [],
             quiz_courses_failed_expansion = [''Algorithms''] \<rparr>
   \<and> \<not> quiz_courses_processed (projr (scrape_quizzes (Inr [failing_after_count])))
         + length (quiz_courses_failed_expansion
                     (projr (scrape_quizzes (Inr [failing_after_count]))))
       \<le> length (quiz_courses_found_on_page
                    (projr (scrape_quizzes (Inr [failing_after_count]))))"
  by (simp add: section_sample_defs)

subsection \<open>The date normaliser\<close>

text \<open>
  C6. On the text "Closed at: Dec 5, 2024 at 11:59 PM" the label is stripped, the day is
  padded, giving "Dec 05, 2024 at 11:59 PM", the first format of the list parses it, and
  \<open>parse_date\<close> returns 2024-12-05 23:59:00, whatever the clock and the digit limit.
\<close>

theorem closed_at_literal:
  "strip (re_sub label_re (\<lambda>caps. []) None ''Closed at: Dec 5, 2024 at 11:59 PM'')
     = ''Dec 5, 2024 at 11:59 PM''
   \<and> clean_date_str ''Closed at: Dec 5, 2024 at 11:59 PM'' = ''Dec 05, 2024 at 11:59 PM''
   \<and> strptime max_str_digits ''Dec 05, 2024 at 11:59 PM'' (formats ! 0)
       = datetime_new 2024 12 5 23 59 0
   \<and> datetime_new 2024 12 5 23 59 0 = Inr 63869039940000000
   \<and> parse_date max_str_digits now ''Closed at: Dec 5, 2024 at 11:59 PM''
       = Inr (Some 63869039940000000)"
  by (simp add: eval_defs)

text \<open>
  C4. The claim is that \<open>parse_date\<close> never raises. The handler of the relative branch
  catches \<open>ValueError\<close> and \<open>IndexError\<close>; \<open>timedelta\<close> raises \<open>OverflowError\<close> for more than
  999999999 days (and the addition to \<open>datetime.now()\<close> does so past the year 9999), which
  leaves the function, at every moment and with every digit limit.
\<close>

theorem parse_date_raises:
  "parse_date max_str_digits now ''Will be closed after: 9999999999 days 0 hours''
     = Inl OverflowError"
  by (simp add: eval_defs)

text \<open>How the matcher runs over a text that is known piece by piece.\<close>

lemma lit_Cons: "lit (x # w) = Seq (Cls (ci_eq x)) (lit w)"
  by (simp add: lit_def)

lemma lit_Nil: "lit [] = Eps"
  by (simp add: lit_def)

lemma rmatch_lit:
  "rmatch (lit w) k (pr, w @ s, c) = k (if w = [] then pr else Some (last w), s, c)"
proof (induction w arbitrary: pr)
  case Nil
  show ?case by (simp add: lit_Nil)
next
  case (Cons x w)
  show ?case using Cons [of "Some x"] by (simp add: lit_Cons ci_eq_def)
qed

lemma star_greedy_run:
  "list_all p ds \<Longrightarrow> s = [] \<or> \<not> p (hd s) \<Longrightarrow>
   k (if ds = [] then pr else Some (last ds), s, c) = Some r \<Longrightarrow>
   star_greedy p k pr c (ds @ s) = Some r"
proof (induction ds arbitrary: pr)
  case Nil
  then show ?case by (cases s) auto
next
  case (Cons d ds)
  then have "star_greedy p k (Some d) c (ds @ s) = Some r"
    by (intro Cons.IH) auto
  then show ?case using Cons.prems by simp
qed

lemma rmatch_plus_run:
  assumes "ds \<noteq> []" "list_all p ds" "s = [] \<or> \<not> p (hd s)"
    and "k (Some (last ds), s, c) = Some r"
  shows "rmatch (Plus p) k (pr, ds @ s, c) = Some r"
proof -
  from assms(1) obtain d ds' where ds: "ds = d # ds'" by (cases ds) auto
  have "star_greedy p k (Some d) c (ds' @ s) = Some r"
    using assms ds by (intro star_greedy_run) auto
  then show ?thesis using assms(2) ds by (simp add: Plus_def)
qed

lemma rmatch_group_run:
  assumes "ds \<noteq> []" "list_all p ds" "s = [] \<or> \<not> p (hd s)"
    and "k (Some (last ds), s, c(n \<mapsto> ds)) = Some r"
  shows "rmatch (Grp n (Plus p)) k (pr, ds @ s, c) = Some r"
  using assms by (simp add: rmatch_plus_run)

lemma rmatch_group_fails: "\<not> p x \<Longrightarrow> rmatch (Grp n (Plus p)) k (pr, x # s, c) = None"
  by (simp add: Plus_def)

lemma star_lazy_now: "k (pr, s, c) = Some r \<Longrightarrow> star_lazy p k pr c s = Some r"
  by (cases s) auto

text \<open>A lazy run, one character long, before a group of one or more characters of a class.\<close>

lemma rmatch_lazy_group:
  assumes "q x" "\<not> p x" "ds \<noteq> []" "list_all p ds" "s = [] \<or> \<not> p (hd s)"
    and "rmatch t k (Some (last ds), s, c(n \<mapsto> ds)) = Some r"
  shows "rmatch (Seq (LazyStar q) (Seq (Grp n (Plus p)) t)) k (pr, x # ds @ s, c) = Some r"
proof -
  have now: "rmatch (Seq (Grp n (Plus p)) t) k (Some x, ds @ s, c) = Some r"
    using assms by (simp only: rmatch.simps(3)) (rule rmatch_group_run)
  have fails: "rmatch (Seq (Grp n (Plus p)) t) k (pr, x # ds @ s, c) = None"
    using assms(2) by (simp only: rmatch.simps(3)) (rule rmatch_group_fails)
  have "star_lazy q (rmatch (Seq (Grp n (Plus p)) t) k) (Some x) c (ds @ s) = Some r"
    using now by (rule star_lazy_now)
  then show ?thesis using fails assms(1) by simp
qed

lemma is_digit_not_space: "is_digit x \<Longrightarrow> \<not> is_space x"
  by (auto simp: is_digit_def is_space_def Let_def)

lemma blank_facts: "any_char CHR '' ''" "\<not> is_digit CHR '' ''" "is_space CHR '' ''"
  "\<not> is_space CHR ''d''" "\<not> is_space CHR ''h''"
  by (simp_all add: any_char_def is_digit_def is_space_def code_def)

lemma relative_tail_hours:
  "rmatch (Seq (Star is_space) (Seq (lit ''hour'') (Opt (lit ''s'')))) accept
     (pr, '' hours'', c) = Some (Some CHR ''s'', [], c)"
proof -
  have "rmatch (Opt (lit ''s'')) accept (Some CHR ''r'', ''s'', c) = Some (Some CHR ''s'', [], c)"
    using rmatch_lit [of "''s''" accept "Some CHR ''r''" "[]" c]
    by (simp add: Opt_def accept_def)
  then have "rmatch (Seq (lit ''hour'') (Opt (lit ''s''))) accept (Some CHR '' '', ''hours'', c)
      = Some (Some CHR ''s'', [], c)"
    using rmatch_lit [of "''hour''" "rmatch (Opt (lit ''s'')) accept" "Some CHR '' ''" "''s''" c]
    by simp
  then have "star_greedy is_space (rmatch (Seq (lit ''hour'') (Opt (lit ''s''))) accept) pr c
      ('' '' @ ''hours'') = Some (Some CHR ''s'', [], c)"
    by (intro star_greedy_run) (simp_all add: blank_facts)
  then show ?thesis by simp
qed

lemma relative_tail_days:
  assumes "rmatch t accept (Some CHR ''s'', s, c) = Some r"
  shows "rmatch (Seq (Star is_space) (Seq (lit ''day'') (Seq (Opt (lit ''s'')) t))) accept
     (pr, '' days'' @ s, c) = Some r"
proof -
  have "rmatch (Seq (Opt (lit ''s'')) t) accept (Some CHR ''y'', ''s'' @ s, c) = Some r"
    using rmatch_lit [of "''s''" "rmatch t accept" "Some CHR ''y''" s c] assms
    by (simp add: Opt_def)
  then have "rmatch (Seq (lit ''day'') (Seq (Opt (lit ''s'')) t)) accept
      (Some CHR '' '', ''day'' @ ''s'' @ s, c) = Some r"
    using rmatch_lit [of "''day''" "rmatch (Seq (Opt (lit ''s'')) t) accept" "Some CHR '' ''"
        "''s'' @ s" c]
    by simp
  then have "star_greedy is_space (rmatch (Seq (lit ''day'') (Seq (Opt (lit ''s'')) t)) accept)
      pr c ('' '' @ ''days'' @ s) = Some r"
    by (intro star_greedy_run) (simp_all add: blank_facts)
  then show ?thesis by simp
qed

lemma relative_match:
  assumes "dD \<noteq> []" "list_all is_digit dD" "dH \<noteq> []" "list_all is_digit dH"
  shows "re_search relative_re (''Will be closed after: '' @ dD @ '' days '' @ dH @ '' hours'')
           = Some [1 \<mapsto> dD, 2 \<mapsto> dH]"
proof -
  let ?t9 = "Seq (Star is_space) (Seq (lit ''hour'') (Opt (lit ''s'')))"
  let ?t7 = "Seq (LazyStar any_char) (Seq (Grp 2 (Plus is_digit)) ?t9)"
  let ?t4 = "Seq (Star is_space) (Seq (lit ''day'') (Seq (Opt (lit ''s'')) ?t7))"
  let ?t2 = "Seq (LazyStar any_char) (Seq (Grp 1 (Plus is_digit)) ?t4)"
  let ?c = "[1 \<mapsto> dD, 2 \<mapsto> dH]"
  let ?goal = "Some (Some CHR ''s'', [], ?c)"
  have f7: "rmatch ?t7 accept (Some CHR ''s'', CHR '' '' # dH @ '' hours'', [1 \<mapsto> dD]) = ?goal"
  proof -
    have h: "rmatch ?t9 accept (Some (last dH), '' hours'', [1 \<mapsto> dD, 2 \<mapsto> dH]) = ?goal"
      by (rule relative_tail_hours)
    have e: "'' hours'' = [] \<or> \<not> is_digit (hd '' hours'')"
      by (simp add: blank_facts)
    show ?thesis
      using rmatch_lazy_group [where q = any_char and x = "CHR '' ''" and p = is_digit
          and ds = dH and s = "'' hours''" and t = ?t9 and k = accept and c = "[1 \<mapsto> dD]"
          and n = 2 and pr = "Some CHR ''s''",
          OF blank_facts(1) blank_facts(2) assms(3) assms(4) e h]
      by simp
  qed
  have f4: "rmatch ?t4 accept (Some (last dD), '' days'' @ (CHR '' '' # dH @ '' hours''),
      [1 \<mapsto> dD]) = ?goal"
    using f7 by (rule relative_tail_days)
  have f2: "rmatch ?t2 accept (Some CHR '':'', CHR '' '' # dD @ ('' days '' @ dH @ '' hours''),
      Map.empty) = ?goal"
  proof -
    have e: "'' days '' @ dH @ '' hours'' = [] \<or> \<not> is_digit (hd ('' days '' @ dH @ '' hours''))"
      by (simp add: blank_facts)
    have h: "rmatch ?t4 accept (Some (last dD), '' days '' @ dH @ '' hours'',
        Map.empty(1 \<mapsto> dD)) = ?goal"
      using f4 by simp
    show ?thesis
      using rmatch_lazy_group [where q = any_char and x = "CHR '' ''" and p = is_digit
          and ds = dD and s = "'' days '' @ dH @ '' hours''" and t = ?t4 and k = accept
          and c = Map.empty and n = 1 and pr = "Some CHR '':''",
          OF blank_facts(1) blank_facts(2) assms(1) assms(2) e h]
      by simp
  qed
  have f1: "rmatch relative_re accept (None, ''Will be closed after:'' @
      (CHR '' '' # dD @ ('' days '' @ dH @ '' hours'')), Map.empty) = ?goal"
    unfolding relative_re_def
    using rmatch_lit [of "''Will be closed after:''" "rmatch ?t2 accept" None
        "CHR '' '' # dD @ ('' days '' @ dH @ '' hours'')" Map.empty] f2
    by simp
  have "search_from relative_re None
      (''Will be closed after: '' @ dD @ '' days '' @ dH @ '' hours'') = ?goal"
    using f1 by simp
  then show ?thesis by (simp add: re_search_def)
qed

lemma digit_char_facts:
  assumes "n < 10"
  shows "is_digit (digit_char n)" and "digit_val (digit_char n) = n"
proof -
  have "\<forall>m \<in> set [0 ..< 10]. is_digit (digit_char m) \<and> digit_val (digit_char m) = m"
    by (simp add: upt_rec digit_char_def is_digit_def digit_val_def code_def eval_nat_numeral)
  moreover from assms have "n \<in> set [0 ..< 10]" by simp
  ultimately show "is_digit (digit_char n)" and "digit_val (digit_char n) = n"
    by blast+
qed

lemma dec_digits: "dec n \<noteq> [] \<and> list_all is_digit (dec n)"
proof (induction n rule: dec.induct)
  case (1 n)
  show ?case
  proof (cases "n < 10")
    case True
    then show ?thesis by (subst (1 2) dec.simps) (simp add: digit_char_facts)
  next
    case False
    then show ?thesis using 1 by (subst (1 2) dec.simps) (simp add: digit_char_facts)
  qed
qed

lemma digits_val_snoc: "digits_val (ds @ [x]) = 10 * digits_val ds + digit_val x"
  by (simp add: digits_val_def)

lemma digits_val_dec: "digits_val (dec n) = n"
proof (induction n rule: dec.induct)
  case (1 n)
  show ?case
  proof (cases "n < 10")
    case True
    then show ?thesis
      by (subst dec.simps) (simp add: digit_char_facts digits_val_def)
  next
    case False
    then show ?thesis using 1
      by (subst dec.simps) (simp add: digits_val_snoc digit_char_facts)
  qed
qed

lemma length_dec: "n < 10 ^ k \<Longrightarrow> 0 < k \<Longrightarrow> length (dec n) \<le> k"
proof (induction n arbitrary: k rule: dec.induct)
  case (1 n)
  show ?case
  proof (cases "n < 10")
    case True
    then show ?thesis using "1.prems" by (subst dec.simps) simp
  next
    case False
    with "1.prems" have k: "1 < k" by (cases "k = 1") auto
    then obtain k' where k': "k = Suc k'" "0 < k'" by (cases k) auto
    with "1.prems" have "n div 10 < 10 ^ k'" by (simp add: less_mult_imp_div_less mult.commute)
    then have "length (dec (n div 10)) \<le> k'" using "1.IH" False k' by simp
    then show ?thesis using False k' by (subst dec.simps) simp
  qed
qed

lemma dropWhile_hd: "xs \<noteq> [] \<Longrightarrow> \<not> P (hd xs) \<Longrightarrow> dropWhile P xs = xs"
  by (cases xs) auto

lemma strip_id:
  assumes "s \<noteq> []" "\<not> is_space (hd s)" "\<not> is_space (last s)"
  shows "strip s = s"
proof -
  have a: "dropWhile is_space s = s" using assms by (simp add: dropWhile_hd)
  have "rev s \<noteq> []" "hd (rev s) = last s" using assms by (simp_all add: hd_rev)
  then have "dropWhile is_space (rev s) = rev s"
    using assms(3) by (simp add: dropWhile_hd)
  then show ?thesis by (simp add: strip_def a)
qed

lemma strip_digits: "ds \<noteq> [] \<Longrightarrow> list_all is_digit ds \<Longrightarrow> strip ds = ds"
proof (rule strip_id)
  assume a: "ds \<noteq> []" "list_all is_digit ds"
  show "ds \<noteq> []" by fact
  have "is_digit (hd ds)" "is_digit (last ds)"
    using a by (simp_all add: list_all_iff)
  then show "\<not> is_space (hd ds)" "\<not> is_space (last ds)"
    by (simp_all add: is_digit_not_space)
qed

lemma py_int_digits:
  assumes "ds \<noteq> []" "list_all is_digit ds"
    and "length ds \<le> 640 \<or> max_str_digits = 0 \<or> length ds \<le> max_str_digits"
  shows "py_int max_str_digits ds = Inr (int (digits_val ds))"
  using assms by (auto simp: py_int_def strip_digits)

lemma py_int_dec:
  "length (dec n) \<le> 640 \<or> max_str_digits = 0 \<or> length (dec n) \<le> max_str_digits \<Longrightarrow>
   py_int max_str_digits (dec n) = Inr (int n)"
  using py_int_digits [of "dec n" max_str_digits] dec_digits [of n]
  by (simp add: digits_val_dec)

lemma replace_newlines_digits: "list_all is_digit ds \<Longrightarrow> replace_newlines ds = ds"
proof -
  assume a: "list_all is_digit ds"
  have "\<not> is_digit (CHR 0x0A)" by (simp add: is_digit_def code_def)
  then have "\<forall>x \<in> set ds. x \<noteq> CHR 0x0A" using a by (auto simp: list_all_iff)
  then show ?thesis by (simp add: replace_newlines_def map_idI)
qed

lemma replace_newlines_append:
  "replace_newlines (a @ b) = replace_newlines a @ replace_newlines b"
  by (simp add: replace_newlines_def)

text \<open>The text of a relative deadline, with the two numbers as strings of digits.\<close>

lemma relative_text_normal:
  assumes "dD \<noteq> []" "list_all is_digit dD" "dH \<noteq> []" "list_all is_digit dH"
  shows "strip (replace_newlines
           (''Will be closed after: '' @ dD @ '' days '' @ dH @ '' hours''))
         = ''Will be closed after: '' @ dD @ '' days '' @ dH @ '' hours''"
proof -
  have r: "replace_newlines (''Will be closed after: '' @ dD @ '' days '' @ dH @ '' hours'')
      = ''Will be closed after: '' @ dD @ '' days '' @ dH @ '' hours''"
  proof -
    have "replace_newlines dD = dD" "replace_newlines dH = dH"
      using assms by (simp_all add: replace_newlines_digits)
    then have "map (\<lambda>c. if c = CHR 0x0A then CHR '' '' else c) dD = dD"
      "map (\<lambda>c. if c = CHR 0x0A then CHR '' '' else c) dH = dH"
      by (simp_all add: replace_newlines_def)
    then show ?thesis by (simp add: replace_newlines_def)
  qed
  have "strip (''Will be closed after: '' @ dD @ '' days '' @ dH @ '' hours'')
      = ''Will be closed after: '' @ dD @ '' days '' @ dH @ '' hours''"
    by (rule strip_id) (simp_all add: is_space_def code_def)
  then show ?thesis by (simp only: r)
qed

lemma parse_date_relative:
  assumes d: "dD \<noteq> []" "list_all is_digit dD" "dH \<noteq> []" "list_all is_digit dH"
  shows "parse_date max_str_digits now
           (''Will be closed after: '' @ dD @ '' days '' @ dH @ '' hours'')
         = (case parse_relative max_str_digits now [1 \<mapsto> dD, 2 \<mapsto> dH] of
              Inl e \<Rightarrow> Inl e
            | Inr (Some deadline) \<Rightarrow> Inr (Some deadline)
            | Inr None \<Rightarrow> parse_absolute max_str_digits
                (''Will be closed after: '' @ dD @ '' days '' @ dH @ '' hours''))"
proof -
  have ns: "\<not> (''Will be closed after: '' @ dD @ '' days '' @ dH @ '' hours'' = [] \<or>
      ''Will be closed after: '' @ dD @ '' days '' @ dH @ '' hours''
        \<in> set [''No Deadline Info'', ''No Status/Date'', ''N/A'', ''Unknown''])"
    by simp
  show ?thesis
    by (simp only: parse_date_def Let_def ns if_False relative_text_normal [OF d]
        relative_match [OF d] option.case)
qed

text \<open>
  C5 (as amended). For all D, H \<ge> 0 such that \<open>now\<close> plus D days and H hours is a date
  that \<open>datetime\<close> can hold (not after the year 9999), \<open>parse_date\<close> at the moment \<open>now\<close>
  returns exactly \<open>now + D days + H hours\<close> for the text
  "Will be closed after: D days H hours", D and H in decimal.
\<close>

theorem relative_offset:
  assumes "valid_datetime now"
    and "valid_datetime (now + int D * DAY + int H * HOUR)"
  shows "parse_date max_str_digits now
           (''Will be closed after: '' @ dec D @ '' days '' @ dec H @ '' hours'')
         = Inr (Some (now + int D * DAY + int H * HOUR))"
proof -
  have bound: "int D * DAY + int H * HOUR < MAX_ORDINAL * DAY"
    using assms by (simp add: valid_datetime_def)
  have nn: "0 \<le> int D * DAY" "0 \<le> int H * HOUR"
    by (simp_all add: DAY_def HOUR_def)
  have "int D * DAY < MAX_ORDINAL * DAY" using bound nn by linarith
  then have D: "D < 10 ^ 7" by (simp add: DAY_def MAX_ORDINAL_def)
  have "int H * HOUR < MAX_ORDINAL * DAY" using bound nn by linarith
  then have H: "H < 10 ^ 9" by (simp add: DAY_def HOUR_def MAX_ORDINAL_def)
  have lD: "length (dec D) \<le> 640" using length_dec [OF D] by simp
  have lH: "length (dec H) \<le> 640" using length_dec [OF H] by simp
  have iD: "py_int max_str_digits (dec D) = Inr (int D)" using lD by (simp add: py_int_dec)
  have iH: "py_int max_str_digits (dec H) = Inr (int H)" using lH by (simp add: py_int_dec)
  have td: "timedelta_new (int D) (int H) = Inr (int D * DAY + int H * HOUR)"
    using bound nn by (simp add: timedelta_new_def Let_def MAX_ORDINAL_def DAY_def HOUR_def)
  have add: "datetime_add now (int D * DAY + int H * HOUR)
      = Inr (now + int D * DAY + int H * HOUR)"
    using assms(2) by (simp add: datetime_add_def add.assoc)
  have rel: "parse_relative max_str_digits now [1 \<mapsto> dec D, 2 \<mapsto> dec H]
      = Inr (Some (now + int D * DAY + int H * HOUR))"
    by (simp add: parse_relative_def group_def bind_def iD iH td add)
  have "parse_date max_str_digits now
           (''Will be closed after: '' @ dec D @ '' days '' @ dec H @ '' hours'')
         = (case parse_relative max_str_digits now [1 \<mapsto> dec D, 2 \<mapsto> dec H] of
              Inl e \<Rightarrow> Inl e
            | Inr (Some deadline) \<Rightarrow> Inr (Some deadline)
            | Inr None \<Rightarrow> parse_absolute max_str_digits
                (''Will be closed after: '' @ dec D @ '' days '' @ dec H @ '' hours''))"
    using dec_digits [of D] dec_digits [of H] by (intro parse_date_relative) simp_all
  then show ?thesis by (simp only: rel sum.case option.case)
qed

theorem relative_offset_witness:
  "valid_datetime sample_now \<and> valid_datetime (sample_now + int 2 * DAY + int 5 * HOUR)
   \<and> parse_date 4300 sample_now ''Will be closed after: 2 days 5 hours''
       = Inr (Some (sample_now + int 2 * DAY + int 5 * HOUR))"
proof -
  have v: "valid_datetime sample_now" "valid_datetime (sample_now + int 2 * DAY + int 5 * HOUR)"
    by (simp_all add: valid_datetime_def sample_now_def DAY_def HOUR_def MAX_ORDINAL_def)
  have d: "dec 2 = ''2''" "dec 5 = ''5''"
    by (simp_all add: dec.simps digit_char_def)
  show ?thesis using relative_offset [OF v, of 4300] v by (simp add: d)
qed

text \<open>
  The claim as stated fails for a D that leaves the range of \<open>datetime\<close>: nothing is
  returned for 3000000 days.
\<close>

theorem relative_offset_counterexample:
  "parse_date 4300 sample_now ''Will be closed after: 3000000 days 2 hours''
     \<noteq> Inr (Some (sample_now + 3000000 * DAY + 2 * HOUR))"
  by (simp add: eval_defs sample_now_def)

text \<open>Where a result of the matcher comes from: the continuation, at a later state.\<close>

lemma star_greedy_origin:
  "star_greedy p k pr c s = Some res \<Longrightarrow>
     \<exists>pr' ds s'. s = ds @ s' \<and> list_all p ds \<and> k (pr', s', c) = Some res"
proof (induction s arbitrary: pr)
  case Nil
  then show ?case by auto
next
  case (Cons x s)
  show ?case
  proof (cases "p x \<and> star_greedy p k (Some x) c s = Some res")
    case True
    then obtain pr' ds s' where "s = ds @ s'" "list_all p ds" "k (pr', s', c) = Some res"
      using Cons.IH by blast
    then have "x # s = (x # ds) @ s' \<and> list_all p (x # ds) \<and> k (pr', s', c) = Some res"
      using True by simp
    then show ?thesis by blast
  next
    case False
    then have "k (pr, x # s, c) = Some res"
      using Cons.prems by (auto split: if_splits option.splits)
    then have "x # s = [] @ (x # s) \<and> list_all p [] \<and> k (pr, x # s, c) = Some res" by simp
    then show ?thesis by blast
  qed
qed

lemma star_lazy_origin:
  "star_lazy p k pr c s = Some res \<Longrightarrow> \<exists>pr' s'. k (pr', s', c) = Some res"
proof (induction s arbitrary: pr)
  case Nil
  then show ?case by auto
next
  case (Cons x s)
  then show ?case by (auto split: if_splits option.splits)
qed

lemma lit_origin:
  "rmatch (lit w) k (pr, s, c) = Some res \<Longrightarrow> \<exists>pr' s'. k (pr', s', c) = Some res"
proof (induction w arbitrary: pr s)
  case Nil
  then show ?case by (auto simp: lit_Nil)
next
  case (Cons x w)
  then show ?case by (auto simp: lit_Cons split: list.splits if_splits)
qed

lemma opt_lit_origin:
  "rmatch (Opt (lit w)) k (pr, s, c) = Some res \<Longrightarrow> \<exists>pr' s'. k (pr', s', c) = Some res"
  using lit_origin [of w k pr s c res] by (auto simp: Opt_def split: option.splits)

lemma group_origin:
  assumes "rmatch (Grp n (Plus p)) k (pr, s, c) = Some res"
  shows "\<exists>pr' s' ds. ds \<noteq> [] \<and> list_all p ds \<and> k (pr', s', c(n \<mapsto> ds)) = Some res"
proof -
  let ?k = "\<lambda>(prev', s', caps'). k (prev', s', caps'(n \<mapsto> take (length s - length s') s))"
  from assms obtain x s1 where s: "s = x # s1" and x: "p x"
    and g: "star_greedy p ?k (Some x) c s1 = Some res"
    by (auto simp: Plus_def split: list.splits if_splits)
  from star_greedy_origin [OF g] obtain pr' ds s' where
    d: "s1 = ds @ s'" "list_all p ds" "?k (pr', s', c) = Some res" by blast
  have "take (length s - length s') s = x # ds" using s d(1) by simp
  then have "k (pr', s', c(n \<mapsto> x # ds)) = Some res" using d(3) by simp
  moreover have "x # ds \<noteq> []" "list_all p (x # ds)" using x d(2) by simp_all
  ultimately show ?thesis by blast
qed

lemma relative_re_groups:
  assumes "rmatch relative_re accept (pr, s, Map.empty) = Some (pr', s', m)"
  shows "\<exists>g1 g2. m = [1 \<mapsto> g1, 2 \<mapsto> g2] \<and> g1 \<noteq> [] \<and> list_all is_digit g1
           \<and> g2 \<noteq> [] \<and> list_all is_digit g2"
proof -
  let ?t9 = "Seq (Star is_space) (Seq (lit ''hour'') (Opt (lit ''s'')))"
  let ?t8 = "Seq (Grp 2 (Plus is_digit)) ?t9"
  let ?t7 = "Seq (LazyStar any_char) ?t8"
  let ?t4 = "Seq (Star is_space) (Seq (lit ''day'') (Seq (Opt (lit ''s'')) ?t7))"
  let ?t3 = "Seq (Grp 1 (Plus is_digit)) ?t4"
  let ?t2 = "Seq (LazyStar any_char) ?t3"
  let ?res = "Some (pr', s', m)"
  from assms have "rmatch (lit ''Will be closed after:'') (rmatch ?t2 accept) (pr, s, Map.empty)
      = ?res"
    unfolding relative_re_def by (simp only: rmatch.simps(3))
  from lit_origin [OF this]
  obtain p1 s1 where "rmatch ?t2 accept (p1, s1, Map.empty) = ?res" by blast
  then have "star_lazy any_char (rmatch ?t3 accept) p1 Map.empty s1 = ?res"
    by (simp only: rmatch.simps(3) rmatch.simps(6))
  from star_lazy_origin [OF this]
  obtain p2 s2 where "rmatch ?t3 accept (p2, s2, Map.empty) = ?res" by blast
  then have "rmatch (Grp 1 (Plus is_digit)) (rmatch ?t4 accept) (p2, s2, Map.empty) = ?res"
    by (simp only: rmatch.simps(3))
  from group_origin [OF this]
  obtain p3 s3 g1 where g1: "g1 \<noteq> []" "list_all is_digit g1"
    and "rmatch ?t4 accept (p3, s3, [1 \<mapsto> g1]) = ?res" by blast
  then have "star_greedy is_space
      (rmatch (Seq (lit ''day'') (Seq (Opt (lit ''s'')) ?t7)) accept) p3 [1 \<mapsto> g1] s3 = ?res"
    by (simp only: rmatch.simps(3) rmatch.simps(5))
  from star_greedy_origin [OF this]
  obtain p4 s4 where
    "rmatch (Seq (lit ''day'') (Seq (Opt (lit ''s'')) ?t7)) accept (p4, s4, [1 \<mapsto> g1]) = ?res"
    by blast
  then have "rmatch (lit ''day'') (rmatch (Seq (Opt (lit ''s'')) ?t7) accept)
      (p4, s4, [1 \<mapsto> g1]) = ?res"
    by (simp only: rmatch.simps(3))
  from lit_origin [OF this]
  obtain p5 s5 where "rmatch (Seq (Opt (lit ''s'')) ?t7) accept (p5, s5, [1 \<mapsto> g1]) = ?res"
    by blast
  then have "rmatch (Opt (lit ''s'')) (rmatch ?t7 accept) (p5, s5, [1 \<mapsto> g1]) = ?res"
    by (simp only: rmatch.simps(3))
  from opt_lit_origin [OF this]
  obtain p6 s6 where "rmatch ?t7 accept (p6, s6, [1 \<mapsto> g1]) = ?res" by blast
  then have "star_lazy any_char (rmatch ?t8 accept) p6 [1 \<mapsto> g1] s6 = ?res"
    by (simp only: rmatch.simps(3) rmatch.simps(6))
  from star_lazy_origin [OF this]
  obtain p7 s7 where "rmatch ?t8 accept (p7, s7, [1 \<mapsto> g1]) = ?res" by blast
  then have "rmatch (Grp 2 (Plus is_digit)) (rmatch ?t9 accept) (p7, s7, [1 \<mapsto> g1]) = ?res"
    by (simp only: rmatch.simps(3))
  from group_origin [OF this]
  obtain p8 s8 g2 where g2: "g2 \<noteq> []" "list_all is_digit g2"
    and "rmatch ?t9 accept (p8, s8, [1 \<mapsto> g1, 2 \<mapsto> g2]) = ?res" by blast
  then have "star_greedy is_space (rmatch (Seq (lit ''hour'') (Opt (lit ''s''))) accept)
      p8 [1 \<mapsto> g1, 2 \<mapsto> g2] s8 = ?res"
    by (simp only: rmatch.simps(3) rmatch.simps(5))
  from star_greedy_origin [OF this]
  obtain p9 s9 where
    "rmatch (Seq (lit ''hour'') (Opt (lit ''s''))) accept (p9, s9, [1 \<mapsto> g1, 2 \<mapsto> g2]) = ?res"
    by blast
  then have "rmatch (lit ''hour'') (rmatch (Opt (lit ''s'')) accept)
      (p9, s9, [1 \<mapsto> g1, 2 \<mapsto> g2]) = ?res"
    by (simp only: rmatch.simps(3))
  from lit_origin [OF this]
  obtain p10 s10 where
    "rmatch (Opt (lit ''s'')) accept (p10, s10, [1 \<mapsto> g1, 2 \<mapsto> g2]) = ?res"
    by blast
  from opt_lit_origin [OF this]
  obtain p11 s11 where "accept (p11, s11, [1 \<mapsto> g1, 2 \<mapsto> g2]) = ?res" by blast
  then have "m = [1 \<mapsto> g1, 2 \<mapsto> g2]" by (simp add: accept_def)
  then show ?thesis using g1 g2 by blast
qed

lemma search_relative_groups:
  "search_from relative_re pr s = Some (pr', s', m) \<Longrightarrow>
     \<exists>g1 g2. m = [1 \<mapsto> g1, 2 \<mapsto> g2] \<and> g1 \<noteq> [] \<and> list_all is_digit g1
           \<and> g2 \<noteq> [] \<and> list_all is_digit g2"
proof (induction s arbitrary: pr)
  case Nil
  then have "rmatch relative_re accept (pr, [], Map.empty) = Some (pr', s', m)"
    by (simp only: search_from.simps)
  then show ?case by (rule relative_re_groups)
next
  case (Cons x s)
  show ?case
  proof (cases "rmatch relative_re accept (pr, x # s, Map.empty)")
    case None
    then show ?thesis using Cons by simp
  next
    case (Some r)
    then have "rmatch relative_re accept (pr, x # s, Map.empty) = Some (pr', s', m)"
      using Cons.prems by simp
    then show ?thesis by (rule relative_re_groups)
  qed
qed

lemma re_search_relative_groups:
  assumes "re_search relative_re s = Some m"
  shows "\<exists>g1 g2. m = [1 \<mapsto> g1, 2 \<mapsto> g2] \<and> g1 \<noteq> [] \<and> list_all is_digit g1
           \<and> g2 \<noteq> [] \<and> list_all is_digit g2"
proof -
  from assms obtain pr' s' where "search_from relative_re None s = Some (pr', s', m)"
    by (auto simp: re_search_def)
  then show ?thesis by (rule search_relative_groups)
qed

text \<open>
  C9 (as amended). Whenever the relative pattern matches the (normalised) text, its two
  groups are non-empty strings of digits. When neither is longer than the interpreter's
  limit on integer texts, both conversions succeed and the branch does not fall through to
  the absolute formats; when moreover \<open>now\<close> plus that many days and hours is a date that
  \<open>datetime\<close> can hold, \<open>parse_date\<close> returns it, a non-null date.
\<close>

theorem relative_match_returns:
  assumes "date_str \<noteq> []"
    and "date_str \<notin> set [''No Deadline Info'', ''No Status/Date'', ''N/A'', ''Unknown'']"
    and "re_search relative_re (strip (replace_newlines date_str)) = Some m"
  shows "\<exists>g1 g2. m = [1 \<mapsto> g1, 2 \<mapsto> g2]
     \<and> g1 \<noteq> [] \<and> list_all is_digit g1 \<and> g2 \<noteq> [] \<and> list_all is_digit g2
     \<and> ((length g1 \<le> 640 \<or> max_str_digits = 0 \<or> length g1 \<le> max_str_digits)
          \<and> (length g2 \<le> 640 \<or> max_str_digits = 0 \<or> length g2 \<le> max_str_digits) \<longrightarrow>
         py_int max_str_digits g1 = Inr (int (digits_val g1))
         \<and> py_int max_str_digits g2 = Inr (int (digits_val g2))
         \<and> parse_relative max_str_digits now m \<noteq> Inr None
         \<and> (valid_datetime now
              \<and> valid_datetime (now + int (digits_val g1) * DAY + int (digits_val g2) * HOUR)
              \<longrightarrow> parse_date max_str_digits now date_str
                    = Inr (Some (now + int (digits_val g1) * DAY + int (digits_val g2) * HOUR))))"
proof -
  from re_search_relative_groups [OF assms(3)] obtain g1 g2 where
    m: "m = [1 \<mapsto> g1, 2 \<mapsto> g2]" and g1: "g1 \<noteq> []" "list_all is_digit g1"
    and g2: "g2 \<noteq> []" "list_all is_digit g2" by blast
  have run: "parse_date max_str_digits now date_str
      = (case parse_relative max_str_digits now m of
           Inl e \<Rightarrow> Inl e
         | Inr (Some deadline) \<Rightarrow> Inr (Some deadline)
         | Inr None \<Rightarrow> parse_absolute max_str_digits (strip (replace_newlines date_str)))"
    using assms by (simp add: parse_date_def Let_def)
  let ?D = "int (digits_val g1)" and ?H = "int (digits_val g2)"
  have main: "py_int max_str_digits g1 = Inr ?D \<and> py_int max_str_digits g2 = Inr ?H
         \<and> parse_relative max_str_digits now m \<noteq> Inr None
         \<and> (valid_datetime now \<and> valid_datetime (now + ?D * DAY + ?H * HOUR)
              \<longrightarrow> parse_date max_str_digits now date_str
                    = Inr (Some (now + ?D * DAY + ?H * HOUR)))"
    if lim: "(length g1 \<le> 640 \<or> max_str_digits = 0 \<or> length g1 \<le> max_str_digits)
          \<and> (length g2 \<le> 640 \<or> max_str_digits = 0 \<or> length g2 \<le> max_str_digits)"
  proof -
    have i1: "py_int max_str_digits g1 = Inr ?D" using g1 lim by (simp add: py_int_digits)
    have i2: "py_int max_str_digits g2 = Inr ?H" using g2 lim by (simp add: py_int_digits)
    have rel: "parse_relative max_str_digits now m
        = (case bind (timedelta_new ?D ?H) (datetime_add now) of
             Inr deadline \<Rightarrow> Inr (Some deadline)
           | Inl e \<Rightarrow> if e = ValueError \<or> e = IndexError then Inr None else Inl e)"
      by (simp add: parse_relative_def m group_def i1 i2 bind_def)
    have nofall: "parse_relative max_str_digits now m \<noteq> Inr None"
      unfolding rel
      by (auto simp: bind_def timedelta_new_def datetime_add_def Let_def split: sum.splits)
    have ret: "parse_date max_str_digits now date_str = Inr (Some (now + ?D * DAY + ?H * HOUR))"
      if v: "valid_datetime now \<and> valid_datetime (now + ?D * DAY + ?H * HOUR)"
    proof -
      have bound: "?D * DAY + ?H * HOUR < MAX_ORDINAL * DAY"
        using v by (simp add: valid_datetime_def)
      have nn: "0 \<le> ?D * DAY" "0 \<le> ?H * HOUR"
        by (simp_all add: DAY_def HOUR_def)
      have td: "timedelta_new ?D ?H = Inr (?D * DAY + ?H * HOUR)"
        using bound nn
        by (simp add: timedelta_new_def Let_def MAX_ORDINAL_def DAY_def HOUR_def)
      have add: "datetime_add now (?D * DAY + ?H * HOUR) = Inr (now + ?D * DAY + ?H * HOUR)"
        using v by (simp add: datetime_add_def add.assoc)
      have "parse_relative max_str_digits now m = Inr (Some (now + ?D * DAY + ?H * HOUR))"
        by (simp add: rel td add bind_def)
      then show ?thesis by (simp add: run)
    qed
    show ?thesis using i1 i2 nofall ret by blast
  qed
  show ?thesis using m g1 g2 main by blast
qed

theorem relative_match_returns_witness:
  "re_search relative_re (strip (replace_newlines ''Will be closed after: 2 days 5 hours''))
     = Some [1 \<mapsto> ''2'', 2 \<mapsto> ''5'']
   \<and> valid_datetime sample_now \<and> valid_datetime (sample_now + 2 * DAY + 5 * HOUR)
   \<and> parse_date 4300 sample_now ''Will be closed after: 2 days 5 hours''
       = Inr (Some (sample_now + 2 * DAY + 5 * HOUR))"
proof -
  have s: "re_search relative_re
      (strip (replace_newlines ''Will be closed after: 2 days 5 hours''))
     = Some [1 \<mapsto> ''2'', 2 \<mapsto> ''5'']"
    by (simp add: eval_defs)
  have n: "''Will be closed after: 2 days 5 hours'' \<noteq> []"
    "''Will be closed after: 2 days 5 hours''
       \<notin> set [''No Deadline Info'', ''No Status/Date'', ''N/A'', ''Unknown'']"
    by simp_all
  have v: "valid_datetime sample_now" "valid_datetime (sample_now + 2 * DAY + 5 * HOUR)"
    by (simp_all add: valid_datetime_def sample_now_def DAY_def HOUR_def MAX_ORDINAL_def)
  have e: "digits_val ''2'' = 2" "digits_val ''5'' = 5"
    by (simp_all add: digits_val_def digit_val_def code_def)
  from relative_match_returns [OF n s, of 4300 sample_now] obtain g1 g2 where
    q: "[1 \<mapsto> ''2'', 2 \<mapsto> ''5''] = ([1 \<mapsto> g1, 2 \<mapsto> g2] :: captures)"
    and r: "(length g1 \<le> 640 \<or> (4300::nat) = 0 \<or> length g1 \<le> 4300)
          \<and> (length g2 \<le> 640 \<or> (4300::nat) = 0 \<or> length g2 \<le> 4300) \<longrightarrow>
         py_int 4300 g1 = Inr (int (digits_val g1))
         \<and> py_int 4300 g2 = Inr (int (digits_val g2))
         \<and> parse_relative 4300 sample_now [1 \<mapsto> ''2'', 2 \<mapsto> ''5''] \<noteq> Inr None
         \<and> (valid_datetime sample_now
              \<and> valid_datetime (sample_now + int (digits_val g1) * DAY
                                    + int (digits_val g2) * HOUR)
              \<longrightarrow> parse_date 4300 sample_now ''Will be closed after: 2 days 5 hours''
                    = Inr (Some (sample_now + int (digits_val g1) * DAY
                                   + int (digits_val g2) * HOUR)))"
    by blast
  have g: "g1 = ''2''" "g2 = ''5''"
    using fun_cong [OF q, of 1] fun_cong [OF q, of 2] by simp_all
  have "parse_date 4300 sample_now ''Will be closed after: 2 days 5 hours''
      = Inr (Some (sample_now + 2 * DAY + 5 * HOUR))"
    using r v by (simp add: g e)
  then show ?thesis using s v by simp
qed

text \<open>
  The claim as stated fails on a text that the pattern matches and whose sum leaves the
  range of \<open>datetime\<close>: no date is returned.
\<close>

theorem relative_match_counterexample:
  "re_search relative_re ''Will be closed after: 5000000 days 3 hours'' \<noteq> None
   \<and> parse_date 4300 sample_now ''Will be closed after: 5000000 days 3 hours''
       = Inl OverflowError"
  by (simp add: eval_defs sample_now_def)


subsection \<open>The notifier\<close>

lemma posts_append: "posts (a @ b) = posts a @ posts b"
  by (induction a rule: posts.induct) auto

lemma posts_send_chunks:
  "posts (send_chunks sf clk net url n i cs) =
     map (\<lambda>(j, c). chunk_message sf (clk j) j n c) (zip [i ..< i + length cs] cs)"
proof (induction cs arbitrary: i)
  case Nil
  show ?case by simp
next
  case (Cons c cs)
  have "[i ..< i + length (c # cs)] = i # [Suc i ..< Suc i + length cs]"
    by (simp add: upt_rec)
  then show ?case using Cons [of "Suc i"] by (simp add: posts_append)
qed

lemma concat_slices:
  "concat (map (\<lambda>k. take m (drop (k * m) xs)) [0 ..< c]) = take (c * m) xs"
proof (induction c)
  case 0
  show ?case by simp
next
  case (Suc c)
  have "take (c * m) xs @ take m (drop (c * m) xs) = take (c * m + m) xs"
    by (simp add: take_add)
  then show ?case using Suc by (simp add: add.commute)
qed

lemma length_chunks_of: "length (chunks_of ts) = (length ts + 9) div 10"
  by (simp add: chunks_of_def py_range_def max_embeds_def)

lemma nth_chunks_of:
  "i < length (chunks_of ts) \<Longrightarrow> chunks_of ts ! i = take 10 (drop (i * 10) ts)"
  by (simp add: chunks_of_def py_range_def max_embeds_def)

lemma chunks_of_slices:
  "chunks_of ts = map (\<lambda>k. take 10 (drop (k * 10) ts)) [0 ..< (length ts + 9) div 10]"
  by (simp add: chunks_of_def py_range_def max_embeds_def comp_def add.commute)

lemma map_snd_zip_upt: "map (\<lambda>(j, c). f c) (zip [i ..< i + length cs] cs) = map f cs"
proof (induction cs arbitrary: i)
  case Nil
  show ?case by simp
next
  case (Cons c cs)
  have "[i ..< i + length (c # cs)] = i # [Suc i ..< Suc i + length cs]"
    by (simp add: upt_rec)
  then show ?case using Cons [of "Suc i"] by simp
qed

lemma concat_chunks_of: "concat (chunks_of ts) = ts"
proof -
  have "concat (chunks_of ts) = take (((length ts + 9) div 10) * 10) ts"
    unfolding chunks_of_slices by (rule concat_slices)
  moreover have "length ts \<le> ((length ts + 9) div 10) * 10" by arith
  ultimately show ?thesis by simp
qed

lemma length_nth_chunks_of:
  assumes "i < length (chunks_of ts)"
  shows "length (chunks_of ts ! i) =
           (if Suc i < length (chunks_of ts) then 10 else length ts - i * 10)"
    and "0 < length (chunks_of ts ! i)" and "length (chunks_of ts ! i) \<le> 10"
  using assms by (auto simp: nth_chunks_of length_chunks_of)

lemma chunks_of_Nil: "chunks_of ts = [] \<longleftrightarrow> ts = []"
  using length_chunks_of [of ts] by (cases ts) auto

lemma chunks_of_23: "length ts = 23 \<Longrightarrow> map length (chunks_of ts) = [10, 10, 3]"
  by (simp add: chunks_of_def py_range_def max_embeds_def upt_rec)


text \<open>
  C8. Whatever the deadline list: with a URL that is not webhook-shaped nothing is sent; with
  an empty list exactly one request, the "all clear" payload, is the only effect; otherwise
  the list is cut, in order, into batches of ten with a shorter last one (23 deadlines give
  batches of 10, 10 and 3), one request per batch, and the summary text of request \<open>i\<close>
  carries the part index \<open>i + 1\<close> out of the number of batches.
\<close>

theorem notify_batches:
  "(\<not> valid_webhook url \<longrightarrow> send_deadline_alerts sf clk net ts url = (None, [])) \<and>
   (valid_webhook url \<and> ts = [] \<longrightarrow>
      snd (send_deadline_alerts sf clk net ts url)
        = [HttpPost url (all_clear_message sf (clk 0)) 10]) \<and>
   (valid_webhook url \<and> ts \<noteq> [] \<longrightarrow>
      fst (send_deadline_alerts sf clk net ts url) = None \<and>
      length (posts (snd (send_deadline_alerts sf clk net ts url))) = (length ts + 9) div 10 \<and>
      concat (chunks_of ts) = ts \<and>
      (\<forall>i < length (chunks_of ts).
         length (chunks_of ts ! i)
           = (if Suc i < length (chunks_of ts) then 10 else length ts - i * 10) \<and>
         0 < length (chunks_of ts ! i) \<and> length (chunks_of ts ! i) \<le> 10 \<and>
         embeds (posts (snd (send_deadline_alerts sf clk net ts url)) ! i)
           = map (task_embed sf) (chunks_of ts ! i) \<and>
         content (posts (snd (send_deadline_alerts sf clk net ts url)) ! i)
           = bell_icon @ '' **Upcoming Deadlines Alert!** (Part '' @ dec (i + 1) @ ''/''
               @ dec (length (chunks_of ts)) @ '') - Checked: '' @ sf (clk i) ''%H:%M'')) \<and>
   (valid_webhook url \<and> length ts = 23 \<longrightarrow>
      map (length \<circ> embeds) (posts (snd (send_deadline_alerts sf clk net ts url)))
        = [10, 10, 3])"
proof (intro conjI impI)
  show "send_deadline_alerts sf clk net ts url = (None, [])" if "\<not> valid_webhook url"
    using that by (simp add: send_deadline_alerts_def)
next
  assume "valid_webhook url \<and> ts = []"
  then show "snd (send_deadline_alerts sf clk net ts url)
               = [HttpPost url (all_clear_message sf (clk 0)) 10]"
    by (simp add: send_deadline_alerts_def chunks_of_Nil)
next
  assume a: "valid_webhook url \<and> ts \<noteq> []"
  then have run: "send_deadline_alerts sf clk net ts url
      = (None, send_chunks sf clk net url (length (chunks_of ts)) 0 (chunks_of ts))"
    by (simp add: send_deadline_alerts_def chunks_of_Nil Let_def)
  show "fst (send_deadline_alerts sf clk net ts url) = None"
    by (simp add: run)
  show "length (posts (snd (send_deadline_alerts sf clk net ts url))) = (length ts + 9) div 10"
    by (simp add: run posts_send_chunks length_chunks_of)
  show "concat (chunks_of ts) = ts"
    by (rule concat_chunks_of)
  show "\<forall>i < length (chunks_of ts).
         length (chunks_of ts ! i)
           = (if Suc i < length (chunks_of ts) then 10 else length ts - i * 10) \<and>
         0 < length (chunks_of ts ! i) \<and> length (chunks_of ts ! i) \<le> 10 \<and>
         embeds (posts (snd (send_deadline_alerts sf clk net ts url)) ! i)
           = map (task_embed sf) (chunks_of ts ! i) \<and>
         content (posts (snd (send_deadline_alerts sf clk net ts url)) ! i)
           = bell_icon @ '' **Upcoming Deadlines Alert!** (Part '' @ dec (i + 1) @ ''/''
               @ dec (length (chunks_of ts)) @ '') - Checked: '' @ sf (clk i) ''%H:%M''"
  proof (intro allI impI conjI)
    fix i assume i: "i < length (chunks_of ts)"
    show "length (chunks_of ts ! i)
           = (if Suc i < length (chunks_of ts) then 10 else length ts - i * 10)"
      and "0 < length (chunks_of ts ! i)" and "length (chunks_of ts ! i) \<le> 10"
      using length_nth_chunks_of [OF i] by blast+
    show "embeds (posts (snd (send_deadline_alerts sf clk net ts url)) ! i)
           = map (task_embed sf) (chunks_of ts ! i)"
      using i by (simp add: run posts_send_chunks chunk_message_def)
    show "content (posts (snd (send_deadline_alerts sf clk net ts url)) ! i)
           = bell_icon @ '' **Upcoming Deadlines Alert!** (Part '' @ dec (i + 1) @ ''/''
               @ dec (length (chunks_of ts)) @ '') - Checked: '' @ sf (clk i) ''%H:%M''"
      using i by (simp add: run posts_send_chunks chunk_message_def)
  qed
next
  assume a: "valid_webhook url \<and> length ts = 23"
  then have ne: "chunks_of ts \<noteq> []"
    by (auto simp: chunks_of_Nil)
  have sizes: "map length (chunks_of ts) = [10, 10, 3]"
    using a by (simp add: chunks_of_23)
  have "posts (snd (send_deadline_alerts sf clk net ts url))
      = map (\<lambda>(j, c). chunk_message sf (clk j) j (length (chunks_of ts)) c)
          (zip [0 ..< 0 + length (chunks_of ts)] (chunks_of ts))"
    using a ne by (simp add: send_deadline_alerts_def Let_def posts_send_chunks)
  then have "map (length \<circ> embeds) (posts (snd (send_deadline_alerts sf clk net ts url)))
      = map (\<lambda>(j, c). length c) (zip [0 ..< 0 + length (chunks_of ts)] (chunks_of ts))"
    by (simp add: comp_def case_prod_unfold chunk_message_def)
  then have "map (length \<circ> embeds) (posts (snd (send_deadline_alerts sf clk net ts url)))
      = map length (chunks_of ts)"
    by (simp only: map_snd_zip_upt)
  then show "map (length \<circ> embeds) (posts (snd (send_deadline_alerts sf clk net ts url)))
      = [10, 10, 3]"
    by (simp add: sizes)
qed

theorem notify_batches_witness:
  "\<not> valid_webhook ''https://example.com/hook'' \<and>
   send_deadline_alerts (\<lambda>d f. ''12:00'') (\<lambda>i. 0) (\<lambda>i. Sent_ok) [] ''https://example.com/hook''
     = (None, []) \<and>
   valid_webhook ''https://discord.com/api/webhooks/1/x'' \<and>
   snd (send_deadline_alerts (\<lambda>d f. ''12:00'') (\<lambda>i. 0) (\<lambda>i. Sent_ok) []
          ''https://discord.com/api/webhooks/1/x'')
     = [HttpPost ''https://discord.com/api/webhooks/1/x''
          (all_clear_message (\<lambda>d f. ''12:00'') 0) 10] \<and>
   length (replicate 23 \<lparr>course = ''CS101'', name = ''Quiz 1'', due_date_str = ''N/A'', due_date_obj = 0, days_left = 2, task_type = ''Quiz''\<rparr>) = 23 \<and>
   map (length \<circ> embeds)
     (posts (snd (send_deadline_alerts (\<lambda>d f. ''12:00'') (\<lambda>i. 0) (\<lambda>i. Sent_ok)
        (replicate 23 \<lparr>course = ''CS101'', name = ''Quiz 1'', due_date_str = ''N/A'', due_date_obj = 0, days_left = 2, task_type = ''Quiz''\<rparr>) ''https://discord.com/api/webhooks/1/x'')))
     = [10, 10, 3]"
  using notify_batches [of "''https://example.com/hook''" "\<lambda>d f. ''12:00''" "\<lambda>i. 0"
      "\<lambda>i. Sent_ok" "[]"]
    notify_batches [of "''https://discord.com/api/webhooks/1/x''" "\<lambda>d f. ''12:00''" "\<lambda>i. 0"
      "\<lambda>i. Sent_ok" "[]"]
    notify_batches [of "''https://discord.com/api/webhooks/1/x''" "\<lambda>d f. ''12:00''" "\<lambda>i. 0"
      "\<lambda>i. Sent_ok" "replicate 23 \<lparr>course = ''CS101'', name = ''Quiz 1'', due_date_str = ''N/A'', due_date_obj = 0, days_left = 2, task_type = ''Quiz''\<rparr>"]
  by (simp add: valid_webhook_def)

end
